theory Spec2Isabelle
  imports Complex_Main "HOL-Library.Word"
begin

unbundle bit_operations_syntax

section \<open>The probe analyser of DelayBasedBwe (delay_based_bwe.cc)\<close>

text \<open>
  Conventions of the embedding. \<open>int64_t\<close> times are \<open>int\<close> and \<open>size_t\<close> sizes are
  \<open>nat\<close> (no wrap-around is modelled for them: signed overflow is undefined in C++ and the
  sizes are far below \<open>2^64\<close>); \<open>uint32_t\<close> values are \<open>32 word\<close>. The narrowing
  \<open>int delta = int64 - int64\<close> of ComputeClusters is written out (\<open>to_int32\<close>). The
  \<open>float\<close> fields of a cluster are binary32 numbers; every operation on them rounds
  (\<open>to_float\<close> below).
\<close>

subsection \<open>Constants of the anonymous enum (lines 27-36)\<close>

definition kAbsSendTimeFraction :: nat where "kAbsSendTimeFraction = 18"
definition kAbsSendTimeInterArrivalUpshift :: nat where "kAbsSendTimeInterArrivalUpshift = 8"
definition kInterArrivalShift :: nat where
  "kInterArrivalShift = kAbsSendTimeFraction + kAbsSendTimeInterArrivalUpshift"
definition kTimestampGroupLengthMs :: nat where "kTimestampGroupLengthMs = 5"
definition kInitialProbingIntervalMs :: int where "kInitialProbingIntervalMs = 2000"
definition kMinClusterSize :: int where "kMinClusterSize = 4"
definition kMaxProbePackets :: nat where "kMaxProbePackets = 15"
definition kExpectedNumberOfProbes :: nat where "kExpectedNumberOfProbes = 3"

definition kTimestampToMs :: real where
  "kTimestampToMs = 1000 / of_nat (2 ^ kInterArrivalShift)"

subsection \<open>Probe and Cluster\<close>

record Probe =
  send_time_ms :: int
  recv_time_ms :: int
  payload_size :: nat
  cluster_id :: int

record Cluster =
  send_mean_ms :: real
  recv_mean_ms :: real
  mean_size :: nat
  count :: int
  num_above_min_delta :: int

text \<open>The default constructor \<open>Cluster()\<close>: every field zero.\<close>

definition Cluster_new :: Cluster where
  "Cluster_new = \<lparr>send_mean_ms = 0, recv_mean_ms = 0, mean_size = 0, count = 0,
     num_above_min_delta = 0\<rparr>"

text \<open>Conversion of an \<open>int64_t\<close> difference to \<open>int\<close>: the low 32 bits, read signed.\<close>

definition to_int32 :: "int \<Rightarrow> int" where
  "to_int32 x = sint (word_of_int x :: 32 word)"

subsection \<open>Arithmetic on \<open>float\<close>\<close>

text \<open>
  A \<open>float\<close> is a binary32 number (IEEE 754: a significand of 24 bits) and is modelled
  by the real number it denotes. Each operation of the code on floats, the conversion of an
  integer to \<open>float\<close>, \<open>+=\<close>, \<open>/=\<close>, \<open>-\<close> and \<open>/\<close>, gives the exact result rounded to
  the nearest binary32 number, a tie going to the even significand: \<open>to_float\<close> is this
  rounding. For \<open>2^e \<le> |x| < 2^(e+1)\<close> the binary32 numbers around \<open>x\<close> are the
  multiples of \<open>2^(e-23)\<close>. The exponent range of binary32 is not modelled: the numbers
  that the probe analyser computes from 32-bit deltas, a count and a \<open>size_t\<close> are zero
  or lie between \<open>2^-126\<close> and \<open>2^128\<close> in magnitude, where binary32 is as described.
  Comparisons of floats are exact.
\<close>

definition float_exponent :: "real \<Rightarrow> int" where
  "float_exponent x = \<lfloor>log 2 \<bar>x\<bar>\<rfloor>"

definition round_to_even :: "real \<Rightarrow> int" where
  "round_to_even y =
     (let n = \<lfloor>y\<rfloor> in
      if y - of_int n < 1 / 2 then n
      else if 1 / 2 < y - of_int n then n + 1
      else if even n then n else n + 1)"

definition to_float :: "real \<Rightarrow> real" where
  "to_float x =
     (if x = 0 then 0
      else of_int (round_to_even (x / 2 powi (float_exponent x - 23)))
             * 2 powi (float_exponent x - 23))"

text \<open>Conversion of a floating-point number to an integer: truncation towards zero.\<close>

definition trunc :: "real \<Rightarrow> int" where
  "trunc x = (if 0 \<le> x then \<lfloor>x\<rfloor> else \<lceil>x\<rceil>)"

text \<open>
  Conversion of a \<open>float\<close> to \<open>int\<close> (32 bits). When the truncated value does not fit
  in an \<open>int\<close> the conversion is undefined in C++; the model takes the result of the
  x86-64 conversion instruction there, the most negative \<open>int\<close>.
\<close>

definition float_to_int :: "real \<Rightarrow> int" where
  "float_to_int x =
     (let n = trunc x in if - (2 ^ 31) \<le> n \<and> n < 2 ^ 31 then n else - (2 ^ 31))"

text \<open>
  Modelled from the spec: \<open>Cluster::GetSendBitrateBps\<close> and \<open>GetRecvBitrateBps\<close> are
  declared in delay_based_bwe.h, which is not among the sources. The spec gives
  \<open>send_bps = mean_size*8*1000/mean_send_delta_ms\<close>, likewise \<open>recv_bps\<close>; FindBestProbe
  computes the same expression inline (lines 128-129), where the \<open>size_t\<close> product is
  converted to \<open>float\<close>, divided by the \<open>float\<close> mean, and the quotient converted to
  \<open>int\<close>. The code computes the two bitrates only of a cluster whose means are not zero
  (line 126).
\<close>

definition GetSendBitrateBps :: "Cluster \<Rightarrow> int" where
  "GetSendBitrateBps c =
     float_to_int (to_float (to_float (of_nat (mean_size c * 8 * 1000)) / send_mean_ms c))"

definition GetRecvBitrateBps :: "Cluster \<Rightarrow> int" where
  "GetRecvBitrateBps c =
     float_to_int (to_float (to_float (of_nat (mean_size c * 8 * 1000)) / recv_mean_ms c))"

definition probe_bitrate_bps :: "Cluster \<Rightarrow> int" where
  "probe_bitrate_bps c = min (GetSendBitrateBps c) (GetRecvBitrateBps c)"

subsection \<open>AddCluster (lines 64-69)\<close>

text \<open>
  \<open>send_mean_ms /= static_cast<float>(count)\<close>: the count is converted to \<open>float\<close> and
  the quotient is rounded. \<open>mean_size /= count\<close> is a division of integers.
\<close>

definition AddCluster :: "Cluster list \<Rightarrow> Cluster \<Rightarrow> Cluster list" where
  "AddCluster cs c =
     cs @ [c\<lparr>send_mean_ms := to_float (send_mean_ms c / to_float (of_int (count c))),
              recv_mean_ms := to_float (recv_mean_ms c / to_float (of_int (count c))),
              mean_size := mean_size c div nat (count c)\<rparr>]"

subsection \<open>ComputeClusters (lines 87-118)\<close>

text \<open>The local variables of the loop over \<open>probes_\<close>.\<close>

record cc_state =
  current :: Cluster
  prev_send_time :: int
  prev_recv_time :: int
  last_probe_cluster_id :: int
  clusters :: "Cluster list"

definition cc_init :: cc_state where
  "cc_init = \<lparr>current = Cluster_new, prev_send_time = - 1, prev_recv_time = - 1,
     last_probe_cluster_id = - 1, clusters = []\<rparr>"

text \<open>
  The accumulation of lines 107-110 into the current cluster. In
  \<open>send_mean_ms += send_delta_ms\<close> the \<open>int\<close> delta is converted to \<open>float\<close> and the
  sum is rounded.
\<close>

definition accumulate :: "Cluster \<Rightarrow> int \<Rightarrow> int \<Rightarrow> nat \<Rightarrow> Cluster" where
  "accumulate c send_delta_ms recv_delta_ms sz =
     c\<lparr>send_mean_ms := to_float (send_mean_ms c + to_float (of_int send_delta_ms)),
       recv_mean_ms := to_float (recv_mean_ms c + to_float (of_int recv_delta_ms)),
       mean_size := mean_size c + sz,
       count := count c + 1\<rparr>"

text \<open>One iteration of the loop body (lines 94-114).\<close>

definition cc_step :: "cc_state \<Rightarrow> Probe \<Rightarrow> cc_state" where
  "cc_step s p =
     (let last_id = (if last_probe_cluster_id s = - 1 then cluster_id p
                     else last_probe_cluster_id s);
          s1 = s\<lparr>last_probe_cluster_id := last_id\<rparr>;
          s2 = (if 0 \<le> prev_send_time s1 then
                  (let send_delta_ms = to_int32 (send_time_ms p - prev_send_time s1);
                       recv_delta_ms = to_int32 (recv_time_ms p - prev_recv_time s1);
                       cur1 = (if 1 \<le> send_delta_ms \<and> 1 \<le> recv_delta_ms
                               then (current s1)\<lparr>num_above_min_delta :=
                                      num_above_min_delta (current s1) + 1\<rparr>
                               else current s1);
                       cs = (if cluster_id p \<noteq> last_id \<and> kMinClusterSize \<le> count cur1
                             then AddCluster (clusters s1) cur1 else clusters s1);
                       cur2 = (if cluster_id p \<noteq> last_id then Cluster_new else cur1)
                   in s1\<lparr>current := accumulate cur2 send_delta_ms recv_delta_ms (payload_size p),
                         clusters := cs,
                         last_probe_cluster_id := cluster_id p\<rparr>)
                else s1)
      in s2\<lparr>prev_send_time := send_time_ms p, prev_recv_time := recv_time_ms p\<rparr>)"

fun cc_loop :: "cc_state \<Rightarrow> Probe list \<Rightarrow> cc_state" where
  "cc_loop s [] = s"
| "cc_loop s (p # ps) = cc_loop (cc_step s p) ps"

text \<open>After the loop (lines 116-117) the cluster under construction is added if it is large enough.\<close>

definition cc_finish :: "cc_state \<Rightarrow> Cluster list" where
  "cc_finish s =
     (if kMinClusterSize \<le> count (current s) then AddCluster (clusters s) (current s)
      else clusters s)"

definition ComputeClusters :: "Probe list \<Rightarrow> Cluster list" where
  "ComputeClusters probes = cc_finish (cc_loop cc_init probes)"

subsection \<open>FindBestProbe (lines 120-149)\<close>

text \<open>\<open>it->count / 2\<close> on \<open>int\<close>: C++ division truncates towards zero.\<close>

definition half :: "int \<Rightarrow> int" where
  "half n = (if 0 \<le> n then n div 2 else - ((- n) div 2))"

text \<open>
  The test of lines 130-132: each difference of the two means is a \<open>float\<close> subtraction,
  compared with \<open>2.0f\<close> and \<open>5.0f\<close>.
\<close>

definition probe_ok :: "Cluster \<Rightarrow> bool" where
  "probe_ok c \<longleftrightarrow>
     half (count c) < num_above_min_delta c \<and>
     (to_float (recv_mean_ms c - send_mean_ms c) \<le> 2 \<and>
      to_float (send_mean_ms c - recv_mean_ms c) \<le> 5)"

text \<open>The test of line 126, which makes the loop \<open>continue\<close>.\<close>

definition zero_mean :: "Cluster \<Rightarrow> bool" where
  "zero_mean c \<longleftrightarrow> send_mean_ms c = 0 \<or> recv_mean_ms c = 0"

text \<open>
  The loop, with its two variables \<open>highest_probe_bitrate_bps\<close> and \<open>best_it\<close>; the
  iterator \<open>clusters.end()\<close> is \<open>None\<close>.
\<close>

fun fbp_loop :: "int \<Rightarrow> Cluster option \<Rightarrow> Cluster list \<Rightarrow> Cluster option" where
  "fbp_loop highest best [] = best"
| "fbp_loop highest best (c # cs) =
     (if zero_mean c then fbp_loop highest best cs
      else if probe_ok c then
        (if highest < probe_bitrate_bps c then fbp_loop (probe_bitrate_bps c) (Some c) cs
         else fbp_loop highest best cs)
      else best)"

definition FindBestProbe :: "Cluster list \<Rightarrow> Cluster option" where
  "FindBestProbe cs = fbp_loop 0 None cs"


section \<open>The coordinator DelayBasedBwe (delay_based_bwe.cc)\<close>

subsection \<open>The collaborators\<close>

text \<open>
  InterArrival, OveruseEstimator, OveruseDetector, RateStatistics and AimdRateControl are
  classes of the repository whose code is not among the sources. The coordinator is
  modelled over any implementation of them: their states are the type parameters
  \<open>'ia\<close>, \<open>'est\<close>, \<open>'det\<close>, \<open>'rs\<close>, \<open>'rc\<close>, and their member functions are the fields
  of the record below, each taking the object's state and returning the new one where the
  member function is not const. The doubles \<open>offset()\<close>, \<open>num_of_deltas()\<close> and
  \<open>var_noise()\<close> that the coordinator only forwards from the estimator are read by the
  receiving operation from the estimator's state.
\<close>

datatype BandwidthUsage = kBwNormal | kBwUnderusing | kBwOverusing

datatype ProbeResult = kBitrateUpdated | kNoUpdate

record ('ia, 'est, 'det, 'rs, 'rc) Collaborators =
  InterArrival_new :: "nat \<Rightarrow> real \<Rightarrow> bool \<Rightarrow> 'ia"
  ComputeDeltas :: "'ia \<Rightarrow> 32 word \<Rightarrow> int \<Rightarrow> nat \<Rightarrow> 'ia \<times> (32 word \<times> int \<times> int) option"
  OveruseEstimator_new :: "'est"
  estimator_Update :: "'est \<Rightarrow> int \<Rightarrow> real \<Rightarrow> int \<Rightarrow> BandwidthUsage \<Rightarrow> 'est"
  Detect :: "'det \<Rightarrow> 'est \<Rightarrow> real \<Rightarrow> int \<Rightarrow> 'det"
  State :: "'det \<Rightarrow> BandwidthUsage"
  incoming_Update :: "'rs \<Rightarrow> nat \<Rightarrow> int \<Rightarrow> 'rs"
  Rate :: "'rs \<Rightarrow> int \<Rightarrow> 'rs \<times> 32 word option"
  ValidEstimate :: "'rc \<Rightarrow> bool"
  rate_LatestEstimate :: "'rc \<Rightarrow> 32 word"
  SetEstimate :: "'rc \<Rightarrow> int \<Rightarrow> int \<Rightarrow> 'rc"
  GetFeedbackInterval :: "'rc \<Rightarrow> int"
  TimeToReduceFurther :: "'rc \<Rightarrow> int \<Rightarrow> 32 word \<Rightarrow> bool"
  rate_Update :: "'rc \<Rightarrow> BandwidthUsage \<Rightarrow> 32 word option \<Rightarrow> 'est \<Rightarrow> int \<Rightarrow> 'rc"
  UpdateBandwidthEstimate :: "'rc \<Rightarrow> int \<Rightarrow> 'rc \<times> 32 word"

text \<open>
  Modelled from the spec: \<open>kStreamTimeOutMs\<close>, \<open>PacedSender::kMinProbePacketSize\<close> and
  \<open>PacketInfo::kNotAProbe\<close> are declared in headers that are not among the sources. The
  spec gives the time-out (2000 ms) and the size threshold (200 bytes); \<open>kNotAProbe\<close>, the
  spec's \<open>NOT_A_PROBE\<close>, is taken as \<open>-1\<close>, the value with which ComputeClusters itself
  marks that it has seen no cluster id yet (line 91).
\<close>

definition kStreamTimeOutMs :: int where "kStreamTimeOutMs = 2000"
definition kMinProbePacketSize :: nat where "kMinProbePacketSize = 200"
definition kNotAProbe :: int where "kNotAProbe = - 1"

subsection \<open>The state of the coordinator\<close>

text \<open>
  \<open>ssrcs_\<close> is a \<open>std::map<uint32_t, int64_t>\<close>: an association list kept in increasing
  key order, one entry per key, so that \<open>Keys\<close> lists the keys as the iteration does.
\<close>

type_synonym Ssrcs = "(32 word \<times> int) list"

record ('ia, 'est, 'det, 'rs, 'rc) DelayBasedBwe =
  inter_arrival :: 'ia
  estimator :: 'est
  detector :: 'det
  incoming_bitrate :: 'rs
  remote_rate :: 'rc
  probes :: "Probe list"
  total_probes_received :: nat
  first_packet_time_ms :: int
  last_update_ms :: int
  ssrcs :: Ssrcs

definition Keys :: "Ssrcs \<Rightarrow> 32 word list" where
  "Keys m = map fst m"

text \<open>\<open>ssrcs_[ssrc] = now_ms\<close>: insert the key in order, or overwrite its value.\<close>

fun map_assign :: "32 word \<Rightarrow> int \<Rightarrow> Ssrcs \<Rightarrow> Ssrcs" where
  "map_assign k v [] = [(k, v)]"
| "map_assign k v ((k', v') # m) =
     (if k = k' then (k, v) # m
      else if k < k' then (k, v) # (k', v') # m
      else (k', v') # map_assign k v m)"

subsection \<open>IsBitrateImproving (lines 187-193)\<close>

definition IsBitrateImproving ::
  "('ia, 'est, 'det, 'rs, 'rc) Collaborators \<Rightarrow> 'rc \<Rightarrow> int \<Rightarrow> bool" where
  "IsBitrateImproving ops rc new_bitrate_bps =
     (let initial_probe = (\<not> ValidEstimate ops rc \<and> 0 < new_bitrate_bps);
          bitrate_above_estimate =
            (ValidEstimate ops rc \<and> sint (rate_LatestEstimate ops rc) < new_bitrate_bps)
      in initial_probe \<or> bitrate_above_estimate)"

subsection \<open>ProcessClusters (lines 151-185)\<close>

definition ProcessClusters ::
  "('ia, 'est, 'det, 'rs, 'rc) Collaborators \<Rightarrow> ('ia, 'est, 'det, 'rs, 'rc) DelayBasedBwe \<Rightarrow>
     int \<Rightarrow> ProbeResult \<times> ('ia, 'est, 'det, 'rs, 'rc) DelayBasedBwe" where
  "ProcessClusters ops st now_ms =
     (let cls = ComputeClusters (probes st) in
      if cls = [] then
        (kNoUpdate,
         if kMaxProbePackets \<le> length (probes st) then st\<lparr>probes := tl (probes st)\<rparr> else st)
      else
        (case FindBestProbe cls of
           Some best_it \<Rightarrow>
             if IsBitrateImproving ops (remote_rate st) (probe_bitrate_bps best_it) then
               (kBitrateUpdated,
                st\<lparr>remote_rate :=
                     SetEstimate ops (remote_rate st) (probe_bitrate_bps best_it) now_ms\<rparr>)
             else
               (kNoUpdate,
                if kExpectedNumberOfProbes \<le> length cls then st\<lparr>probes := []\<rparr> else st)
         | None \<Rightarrow>
             (kNoUpdate,
              if kExpectedNumberOfProbes \<le> length cls then st\<lparr>probes := []\<rparr> else st)))"

subsection \<open>TimeoutStreams (lines 346-363)\<close>

definition TimeoutStreams ::
  "('ia, 'est, 'det, 'rs, 'rc) Collaborators \<Rightarrow> ('ia, 'est, 'det, 'rs, 'rc) DelayBasedBwe \<Rightarrow>
     int \<Rightarrow> ('ia, 'est, 'det, 'rs, 'rc) DelayBasedBwe" where
  "TimeoutStreams ops st now_ms =
     (let live = filter (\<lambda>(k, seen). \<not> kStreamTimeOutMs < now_ms - seen) (ssrcs st);
          st1 = st\<lparr>ssrcs := live\<rparr>
      in if live = [] then
           st1\<lparr>inter_arrival :=
                  InterArrival_new ops
                    ((kTimestampGroupLengthMs * 2 ^ kInterArrivalShift) div 1000)
                    kTimestampToMs True,
               estimator := OveruseEstimator_new ops\<rparr>
         else st1)"

subsection \<open>IncomingPacketInfo (lines 235-337)\<close>

text \<open>
  The send time in ms (lines 243-244). The product \<open>timestamp * kTimestampToMs\<close> is a
  double; it is exact there (the timestamp has 32 bits and the factor is \<open>1000 / 2^26\<close>),
  and the conversion to \<open>int64_t\<close> truncates.
\<close>

definition upshift :: "32 word \<Rightarrow> 32 word" where
  "upshift send_time_24bits = push_bit kAbsSendTimeInterArrivalUpshift send_time_24bits"

definition send_time_of :: "32 word \<Rightarrow> int" where
  "send_time_of timestamp = trunc (of_int (uint timestamp) * kTimestampToMs)"

text \<open>The condition of lines 272-275 under which the packet is treated as a probe.\<close>

definition is_probe ::
  "('ia, 'est, 'det, 'rs, 'rc) Collaborators \<Rightarrow> ('ia, 'est, 'det, 'rs, 'rc) DelayBasedBwe \<Rightarrow>
     int \<Rightarrow> nat \<Rightarrow> int \<Rightarrow> bool" where
  "is_probe ops st now_ms sz probe_cluster_id \<longleftrightarrow>
     probe_cluster_id \<noteq> kNotAProbe \<and> kMinProbePacketSize < sz \<and>
     (\<not> ValidEstimate ops (remote_rate st) \<or>
      now_ms - first_packet_time_ms st < kInitialProbingIntervalMs)"

text \<open>Lines 272-296: the probe is appended and the clusters are processed.\<close>

definition probe_stage ::
  "('ia, 'est, 'det, 'rs, 'rc) Collaborators \<Rightarrow> ('ia, 'est, 'det, 'rs, 'rc) DelayBasedBwe \<Rightarrow>
     int \<Rightarrow> int \<Rightarrow> nat \<Rightarrow> int \<Rightarrow> ('ia, 'est, 'det, 'rs, 'rc) DelayBasedBwe \<times> bool" where
  "probe_stage ops st now_ms send_time sz probe_cluster_id =
     (if is_probe ops st now_ms sz probe_cluster_id then
        (let st1 = st\<lparr>probes := probes st @
                        [\<lparr>send_time_ms = send_time, recv_time_ms = now_ms,
                          payload_size = sz, cluster_id = probe_cluster_id\<rparr>],
                      total_probes_received := total_probes_received st + 1\<rparr>;
             (res, st2) = ProcessClusters ops st1 now_ms
         in (st2, res = kBitrateUpdated))
      else (st, False))"

text \<open>
  Lines 297-303: the inter-arrival deltas feed the estimator and the detector.
  \<open>ts_delta_ms\<close> is a double: the product \<open>1000 * ts_delta\<close> is below \<open>2^42\<close> and the
  divisor is a power of two, so that the double is the exact quotient.
\<close>

definition delay_stage ::
  "('ia, 'est, 'det, 'rs, 'rc) Collaborators \<Rightarrow> ('ia, 'est, 'det, 'rs, 'rc) DelayBasedBwe \<Rightarrow>
     32 word \<Rightarrow> int \<Rightarrow> nat \<Rightarrow> ('ia, 'est, 'det, 'rs, 'rc) DelayBasedBwe" where
  "delay_stage ops st timestamp arrival_time_ms sz =
     (case ComputeDeltas ops (inter_arrival st) timestamp arrival_time_ms sz of
        (ia, None) \<Rightarrow> st\<lparr>inter_arrival := ia\<rparr>
      | (ia, Some (ts_delta, t_delta, size_delta)) \<Rightarrow>
          (let ts_delta_ms = (1000 * of_int (uint ts_delta)) / of_nat (2 ^ kInterArrivalShift);
               est = estimator_Update ops (estimator st) t_delta ts_delta_ms size_delta
                       (State ops (detector st));
               det = Detect ops (detector st) est ts_delta_ms arrival_time_ms
           in st\<lparr>inter_arrival := ia, estimator := est, detector := det\<rparr>))"

text \<open>Lines 305-318: is an update of the estimate due?\<close>

definition due_stage ::
  "('ia, 'est, 'det, 'rs, 'rc) Collaborators \<Rightarrow> ('ia, 'est, 'det, 'rs, 'rc) DelayBasedBwe \<Rightarrow>
     int \<Rightarrow> bool \<Rightarrow> ('ia, 'est, 'det, 'rs, 'rc) DelayBasedBwe \<times> bool" where
  "due_stage ops st now_ms update_estimate =
     (if \<not> update_estimate then
        (if last_update_ms st = - 1 \<or>
            GetFeedbackInterval ops (remote_rate st) < now_ms - last_update_ms st
         then (st, True)
         else if State ops (detector st) = kBwOverusing then
           (case Rate ops (incoming_bitrate st) now_ms of
              (rs, None) \<Rightarrow> (st\<lparr>incoming_bitrate := rs\<rparr>, False)
            | (rs, Some incoming_rate) \<Rightarrow>
                (st\<lparr>incoming_bitrate := rs\<rparr>,
                 TimeToReduceFurther ops (remote_rate st) now_ms incoming_rate))
         else (st, False))
      else (st, True))"

text \<open>
  Lines 320-336: the rate controller is updated and, when its estimate is valid, the
  observer is called with the keys of \<open>ssrcs_\<close> and the target bitrate. The call
  \<open>OnReceiveBitrateChanged(ssrcs, target_bitrate_bps)\<close> is the second component of the
  result; \<open>None\<close> is no call.
\<close>

definition update_stage ::
  "('ia, 'est, 'det, 'rs, 'rc) Collaborators \<Rightarrow> ('ia, 'est, 'det, 'rs, 'rc) DelayBasedBwe \<Rightarrow>
     int \<Rightarrow> bool \<Rightarrow>
     ('ia, 'est, 'det, 'rs, 'rc) DelayBasedBwe \<times> (32 word list \<times> 32 word) option" where
  "update_stage ops st now_ms update_estimate =
     (if update_estimate then
        (let (rs, incoming_rate) = Rate ops (incoming_bitrate st) now_ms;
             rc1 = rate_Update ops (remote_rate st) (State ops (detector st)) incoming_rate
                     (estimator st) now_ms;
             (rc2, target_bitrate_bps) = UpdateBandwidthEstimate ops rc1 now_ms;
             st1 = st\<lparr>incoming_bitrate := rs, remote_rate := rc2\<rparr>
         in if ValidEstimate ops rc2
            then (st1\<lparr>last_update_ms := now_ms\<rparr>, Some (Keys (ssrcs st1), target_bitrate_bps))
            else (st1, None))
      else (st, None))"

text \<open>
  Lines 249-267: the rate counter is fed, the first arrival time is recorded, the silent
  streams are timed out and the packet's SSRC is marked as seen now.
\<close>

definition enter_stage ::
  "('ia, 'est, 'det, 'rs, 'rc) Collaborators \<Rightarrow> ('ia, 'est, 'det, 'rs, 'rc) DelayBasedBwe \<Rightarrow>
     int \<Rightarrow> nat \<Rightarrow> 32 word \<Rightarrow> ('ia, 'est, 'det, 'rs, 'rc) DelayBasedBwe" where
  "enter_stage ops st now_ms sz from_ssrc =
     (let st1 = st\<lparr>incoming_bitrate := incoming_Update ops (incoming_bitrate st) sz now_ms\<rparr>;
          st2 = (if first_packet_time_ms st1 = - 1
                 then st1\<lparr>first_packet_time_ms := now_ms\<rparr> else st1);
          st3 = TimeoutStreams ops st2 now_ms
      in st3\<lparr>ssrcs := map_assign from_ssrc now_ms (ssrcs st3)\<rparr>)"

definition IncomingPacketInfo ::
  "('ia, 'est, 'det, 'rs, 'rc) Collaborators \<Rightarrow> ('ia, 'est, 'det, 'rs, 'rc) DelayBasedBwe \<Rightarrow>
     int \<Rightarrow> 32 word \<Rightarrow> nat \<Rightarrow> 32 word \<Rightarrow> int \<Rightarrow>
     ('ia, 'est, 'det, 'rs, 'rc) DelayBasedBwe \<times> (32 word list \<times> 32 word) option" where
  "IncomingPacketInfo ops st arrival_time_ms send_time_24bits sz from_ssrc probe_cluster_id =
     (let timestamp = upshift send_time_24bits;
          send_time = send_time_of timestamp;
          now_ms = arrival_time_ms;
          st4 = enter_stage ops st now_ms sz from_ssrc;
          (st5, update1) = probe_stage ops st4 now_ms send_time sz probe_cluster_id;
          st6 = delay_stage ops st5 timestamp arrival_time_ms sz;
          (st7, update2) = due_stage ops st6 now_ms update1
      in update_stage ops st7 now_ms update2)"

section \<open>The one-byte header extension parser (rtp_utility.cc)\<close>

subsection \<open>The parsed header\<close>

text \<open>
  RTPHeader is declared in a header that is not among the sources; the records hold the
  fields that the modelled functions read or write. The frame marking fields hold the value
  of the expression assigned to them (a masked byte).
\<close>

datatype RTPExtensionType =
    kRtpExtensionNone
  | kRtpExtensionTransmissionTimeOffset
  | kRtpExtensionAudioLevel
  | kRtpExtensionAbsoluteSendTime
  | kRtpExtensionVideoRotation
  | kRtpExtensionTransportSequenceNumber
  | kRtpExtensionPlayoutDelay
  | kRtpExtensionFrameMarking
  | kRtpExtensionNumberOfExtensions

datatype VideoRotation =
  kVideoRotation_0 | kVideoRotation_90 | kVideoRotation_180 | kVideoRotation_270

record PlayoutDelay =
  min_ms :: int
  max_ms :: int

record FrameMarks =
  startOfFrame :: "8 word"
  endOfFrame :: "8 word"
  independent :: "8 word"
  discardable :: "8 word"
  baseLayerSync :: "8 word"
  temporalLayerId :: "8 word"
  spatialLayerId :: "8 word"
  tl0PicIdx :: "8 word"

record RTPHeaderExtension =
  hasTransmissionTimeOffset :: bool
  transmissionTimeOffset :: int
  hasAbsoluteSendTime :: bool
  absoluteSendTime :: "32 word"
  hasAudioLevel :: bool
  voiceActivity :: bool
  audioLevel :: "8 word"
  hasVideoRotation :: bool
  videoRotation :: VideoRotation
  hasTransportSequenceNumber :: bool
  transportSequenceNumber :: "16 word"
  playout_delay :: PlayoutDelay
  frameMarks :: FrameMarks

record RTPHeader =
  ssrc :: "32 word"
  extension :: RTPHeaderExtension

text \<open>
  \<open>RtpHeaderExtensionMap::GetType\<close> and \<open>ConvertCVOByteToVideoRotation\<close> are not among
  the sources: the parser is modelled over any two such functions.
\<close>

record RtpHeaderExtensionMap =
  GetType :: "nat \<Rightarrow> RTPExtensionType"
  ConvertCVOByteToVideoRotation :: "8 word \<Rightarrow> VideoRotation"

text \<open>
  Modelled from the spec: \<open>RtpHeaderExtensionMap::kInvalidType\<close> and
  \<open>kPlayoutDelayGranularityMs\<close> are declared in headers that are not among the sources.
  The spec gives the granularity (10 ms); the invalid type is the enumerator that the
  switch of the parser treats as unreachable.
\<close>

definition kInvalidType :: RTPExtensionType where
  "kInvalidType = kRtpExtensionNone"

definition kPlayoutDelayGranularityMs :: int where
  "kPlayoutDelayGranularityMs = 10"

text \<open>
  \<open>ByteReader<uint32_t, 3>::ReadBigEndian\<close> and \<open>ByteReader<int32_t, 3>::ReadBigEndian\<close>
  (byte_io.h): three bytes, most significant first; the signed read extends the sign of
  the 24-bit value.
\<close>

definition ReadBigEndian3 :: "8 word list \<Rightarrow> nat" where
  "ReadBigEndian3 ptr = unat (ptr ! 0) * 65536 + unat (ptr ! 1) * 256 + unat (ptr ! 2)"

definition ReadBigEndian3_signed :: "8 word list \<Rightarrow> int" where
  "ReadBigEndian3_signed ptr =
     (let u = int (ReadBigEndian3 ptr) in if u < 2 ^ 23 then u else u - 2 ^ 24)"

subsection \<open>The switch over the extension type (lines 339-503)\<close>

text \<open>
  \<open>ptr\<close> is the list of the bytes from the pointer to \<open>ptrRTPDataExtensionEnd\<close>; the
  caller has checked that it holds \<open>len + 1\<close> bytes. The result \<open>None\<close> is the
  \<open>return\<close> of the function from inside the switch; \<open>Some\<close> is the header with which
  the loop goes on.
\<close>

definition parse_element ::
  "RtpHeaderExtensionMap \<Rightarrow> RTPHeader \<Rightarrow> RTPExtensionType \<Rightarrow> nat \<Rightarrow> 8 word list \<Rightarrow>
     RTPHeader option" where
  "parse_element m header type len ptr =
     (let ext = extension header in
      if type = kInvalidType then Some header
      else (case type of
        kRtpExtensionTransmissionTimeOffset \<Rightarrow>
          if len \<noteq> 2 then None
          else Some (header\<lparr>extension := ext\<lparr>
                 transmissionTimeOffset := ReadBigEndian3_signed ptr,
                 hasTransmissionTimeOffset := True\<rparr>\<rparr>)
      | kRtpExtensionAudioLevel \<Rightarrow>
          if len \<noteq> 0 then None
          else Some (header\<lparr>extension := ext\<lparr>
                 audioLevel := (ptr ! 0) AND 0x7f,
                 voiceActivity := ((ptr ! 0) AND 0x80 \<noteq> 0),
                 hasAudioLevel := True\<rparr>\<rparr>)
      | kRtpExtensionAbsoluteSendTime \<Rightarrow>
          if len \<noteq> 2 then None
          else Some (header\<lparr>extension := ext\<lparr>
                 absoluteSendTime := of_nat (ReadBigEndian3 ptr),
                 hasAbsoluteSendTime := True\<rparr>\<rparr>)
      | kRtpExtensionVideoRotation \<Rightarrow>
          if len \<noteq> 0 then None
          else Some (header\<lparr>extension := ext\<lparr>
                 hasVideoRotation := True,
                 videoRotation := ConvertCVOByteToVideoRotation m (ptr ! 0)\<rparr>\<rparr>)
      | kRtpExtensionTransportSequenceNumber \<Rightarrow>
          if len \<noteq> 1 then None
          else Some (header\<lparr>extension := ext\<lparr>
                 transportSequenceNumber :=
                   push_bit 8 (ucast (ptr ! 0)) + ucast (ptr ! 1),
                 hasTransportSequenceNumber := True\<rparr>\<rparr>)
      | kRtpExtensionPlayoutDelay \<Rightarrow>
          if len \<noteq> 2 then None
          else
            (let min_playout_delay =
                   uint (push_bit 4 (ucast (ptr ! 0) :: 32 word) OR
                         (ucast (drop_bit 4 (ptr ! 1)) AND 0xf));
                 max_playout_delay =
                   uint (push_bit 8 (ucast ((ptr ! 1) AND 0xf) :: 32 word) OR ucast (ptr ! 2))
             in Some (header\<lparr>extension := ext\<lparr>playout_delay :=
                  \<lparr>min_ms = min_playout_delay * kPlayoutDelayGranularityMs,
                   max_ms = max_playout_delay * kPlayoutDelayGranularityMs\<rparr>\<rparr>\<rparr>))
      | kRtpExtensionFrameMarking \<Rightarrow>
          if len \<noteq> 1 \<and> len \<noteq> 3 then None
          else
            (let fm = (frameMarks ext)\<lparr>
                   startOfFrame := (ptr ! 0) AND 0x80,
                   endOfFrame := (ptr ! 0) AND 0x40,
                   independent := (ptr ! 0) AND 0x20,
                   discardable := (ptr ! 0) AND 0x10\<rparr>;
                 fm' = (if len = 1 then
                          fm\<lparr>baseLayerSync := 0, temporalLayerId := 0,
                             spatialLayerId := 0, tl0PicIdx := 0\<rparr>
                        else if len = 3 then
                          fm\<lparr>baseLayerSync := (ptr ! 0) AND 0x08,
                             temporalLayerId := (ptr ! 0) AND 0x07,
                             spatialLayerId := ptr ! 1,
                             tl0PicIdx := ptr ! 2\<rparr>
                        else fm)
             in Some (header\<lparr>extension := ext\<lparr>frameMarks := fm'\<rparr>\<rparr>))
      | kRtpExtensionNone \<Rightarrow> None
      | kRtpExtensionNumberOfExtensions \<Rightarrow> None))"

subsection \<open>ParseOneByteExtensionHeader (lines 299-506)\<close>

text \<open>The two nibbles of the first byte of an element (lines 317-318).\<close>

definition element_id :: "8 word \<Rightarrow> nat" where
  "element_id b = unat (drop_bit 4 (b AND 0xf0))"

definition element_len :: "8 word \<Rightarrow> nat" where
  "element_len b = unat (b AND 0x0f)"

text \<open>The while loop over the bytes of the extension block.\<close>

function parse_loop :: "RtpHeaderExtensionMap \<Rightarrow> RTPHeader \<Rightarrow> 8 word list \<Rightarrow> RTPHeader" where
  "parse_loop m header [] = header"
| "parse_loop m header (b # ptr) =
     (if element_id b = 0 then parse_loop m header ptr
      else if element_id b = 15 then header
      else if length ptr < element_len b + 1 then header
      else (case parse_element m header (GetType m (element_id b)) (element_len b) ptr of
              None \<Rightarrow> header
            | Some header' \<Rightarrow> parse_loop m header' (drop (element_len b + 1) ptr)))"
  by pat_completeness auto
termination
  by (relation "measure (\<lambda>(m, header, ptr). length ptr)") auto

text \<open>A null \<open>ptrExtensionMap\<close> is \<open>None\<close>: the function returns at once.\<close>

definition ParseOneByteExtensionHeader ::
  "RtpHeaderExtensionMap option \<Rightarrow> RTPHeader \<Rightarrow> 8 word list \<Rightarrow> RTPHeader" where
  "ParseOneByteExtensionHeader ptrExtensionMap header ptr =
     (case ptrExtensionMap of None \<Rightarrow> header | Some m \<Rightarrow> parse_loop m header ptr)"

section \<open>The entry points of DelayBasedBwe that take a parsed header\<close>

subsection \<open>IncomingPacket (lines 206-233)\<close>

text \<open>
  The result is the new state, the call of the observer if any, and the lines logged at
  warning level by the function.
\<close>

definition missing_abs_send_time_warning :: string where
  "missing_abs_send_time_warning =
     ''RemoteBitrateEstimatorAbsSendTime: Incoming packet '' @
     ''is missing absolute send time extension!''"

definition IncomingPacket ::
  "('ia, 'est, 'det, 'rs, 'rc) Collaborators \<Rightarrow> ('ia, 'est, 'det, 'rs, 'rc) DelayBasedBwe \<Rightarrow>
     int \<Rightarrow> nat \<Rightarrow> RTPHeader \<Rightarrow>
     ('ia, 'est, 'det, 'rs, 'rc) DelayBasedBwe \<times> (32 word list \<times> 32 word) option \<times> string list"
  where
  "IncomingPacket ops st arrival_time_ms sz header =
     (if \<not> hasAbsoluteSendTime (extension header) then
        (st, None, [missing_abs_send_time_warning])
      else
        (let (st', call) =
               IncomingPacketInfo ops st arrival_time_ms (absoluteSendTime (extension header))
                 sz (ssrc header) kNotAProbe
         in (st', call, [])))"

text \<open>The overload with a probe cluster id (lines 220-233).\<close>

definition IncomingPacket_cluster ::
  "('ia, 'est, 'det, 'rs, 'rc) Collaborators \<Rightarrow> ('ia, 'est, 'det, 'rs, 'rc) DelayBasedBwe \<Rightarrow>
     int \<Rightarrow> nat \<Rightarrow> RTPHeader \<Rightarrow> int \<Rightarrow>
     ('ia, 'est, 'det, 'rs, 'rc) DelayBasedBwe \<times> (32 word list \<times> 32 word) option \<times> string list"
  where
  "IncomingPacket_cluster ops st arrival_time_ms sz header probe_cluster_id =
     (if \<not> hasAbsoluteSendTime (extension header) then
        (st, None, [missing_abs_send_time_warning])
      else
        (let (st', call) =
               IncomingPacketInfo ops st arrival_time_ms (absoluteSendTime (extension header))
                 sz (ssrc header) probe_cluster_id
         in (st', call, [])))"

subsection \<open>LatestEstimate (lines 375-394)\<close>

text \<open>
  The member function is const: it is a function of the state and has no successor state.
  \<open>None\<close> is the result \<open>false\<close>; \<open>Some (ssrcs, bitrate_bps)\<close> is the result \<open>true\<close>
  with the two output parameters.
\<close>

definition LatestEstimate ::
  "('ia, 'est, 'det, 'rs, 'rc) Collaborators \<Rightarrow> ('ia, 'est, 'det, 'rs, 'rc) DelayBasedBwe \<Rightarrow>
     (32 word list \<times> 32 word) option" where
  "LatestEstimate ops st =
     (if \<not> ValidEstimate ops (remote_rate st) then None
      else Some (Keys (ssrcs st),
                 if ssrcs st = [] then 0 else rate_LatestEstimate ops (remote_rate st)))"


subsection \<open>The constructor (lines 71-85) and sequences of packets\<close>

text \<open>
  The constructor, given the initial states of the collaborators: no probe, no SSRC, and
  \<open>-1\<close> for the two times that are not yet known.
\<close>

definition DelayBasedBwe_new ::
  "'ia \<Rightarrow> 'est \<Rightarrow> 'det \<Rightarrow> 'rs \<Rightarrow> 'rc \<Rightarrow> ('ia, 'est, 'det, 'rs, 'rc) DelayBasedBwe" where
  "DelayBasedBwe_new ia est det rs rc =
     \<lparr>inter_arrival = ia, estimator = est, detector = det, incoming_bitrate = rs,
      remote_rate = rc, probes = [], total_probes_received = 0,
      first_packet_time_ms = - 1, last_update_ms = - 1, ssrcs = []\<rparr>"

text \<open>The arguments of one call of IncomingPacketInfo.\<close>

record PacketFeedback =
  arrival_time_ms :: int
  send_time_24bits :: "32 word"
  payload_size_bytes :: nat
  packet_ssrc :: "32 word"
  probe_cluster_id :: int

text \<open>
  A sequence of calls, in order: the final state and the observer's calls, one entry per
  packet.
\<close>

fun IncomingPackets ::
  "('ia, 'est, 'det, 'rs, 'rc) Collaborators \<Rightarrow> ('ia, 'est, 'det, 'rs, 'rc) DelayBasedBwe \<Rightarrow>
     PacketFeedback list \<Rightarrow>
     ('ia, 'est, 'det, 'rs, 'rc) DelayBasedBwe \<times> (32 word list \<times> 32 word) option list" where
  "IncomingPackets ops st [] = (st, [])"
| "IncomingPackets ops st (p # ps) =
     (let (st1, call) = IncomingPacketInfo ops st (arrival_time_ms p) (send_time_24bits p)
                          (payload_size_bytes p) (packet_ssrc p) (probe_cluster_id p);
          (st2, calls) = IncomingPackets ops st1 ps
      in (st2, call # calls))"


section \<open>Reference definitions and concrete inputs\<close>

subsection \<open>Collaborators for concrete runs\<close>

text \<open>
  The simplest collaborators, used to run the coordinator on concrete packets: a rate
  controller whose state is the estimate it was last given (\<open>None\<close> while it has none)
  and that reports this estimate unchanged, an inter-arrival filter that never completes a
  group, and a rate counter with no rate yet.
\<close>

definition hold_ops :: "(unit, unit, unit, unit, 32 word option) Collaborators" where
  "hold_ops =
     \<lparr>InterArrival_new = (\<lambda>_ _ _. ()),
      ComputeDeltas = (\<lambda>_ _ _ _. ((), None)),
      OveruseEstimator_new = (),
      estimator_Update = (\<lambda>_ _ _ _ _. ()),
      Detect = (\<lambda>_ _ _ _. ()),
      State = (\<lambda>_. kBwNormal),
      incoming_Update = (\<lambda>_ _ _. ()),
      Rate = (\<lambda>_ _. ((), None)),
      ValidEstimate = (\<lambda>rc. rc \<noteq> None),
      rate_LatestEstimate = (\<lambda>rc. case rc of None \<Rightarrow> 0 | Some b \<Rightarrow> b),
      SetEstimate = (\<lambda>_ b _. Some (word_of_int b)),
      GetFeedbackInterval = (\<lambda>_. 1000),
      TimeToReduceFurther = (\<lambda>_ _ _. False),
      rate_Update = (\<lambda>rc _ _ _ _. rc),
      UpdateBandwidthEstimate = (\<lambda>rc _. (rc, case rc of None \<Rightarrow> 0 | Some b \<Rightarrow> b))\<rparr>"

subsection \<open>Scenario S3\<close>

text \<open>
  The packets of scenario S3: probe cluster 0, 1200 bytes, arrivals 6 ms apart, and 24-bit
  send times (6.18 fixed point) that the coordinator converts to 0, 5, 10, ... ms. The
  probe that the coordinator stores for packet \<open>k\<close> is \<open>S3_probe k\<close>.
\<close>

definition S3_packet :: "nat \<Rightarrow> PacketFeedback" where
  "S3_packet k =
     \<lparr>arrival_time_ms = 6 * int k,
      send_time_24bits = word_of_int ((5 * int k * 262144 + 999) div 1000),
      payload_size_bytes = 1200, packet_ssrc = 1, probe_cluster_id = 0\<rparr>"

definition S3_probe :: "nat \<Rightarrow> Probe" where
  "S3_probe k =
     \<lparr>send_time_ms = 5 * int k, recv_time_ms = 6 * int k, payload_size = 1200, cluster_id = 0\<rparr>"

text \<open>The state after the first \<open>n\<close> packets of S3, and the observer's calls so far.\<close>

definition S3_state ::
  "('ia, 'est, 'det, 'rs, 'rc) Collaborators \<Rightarrow> 'ia \<Rightarrow> 'est \<Rightarrow> 'det \<Rightarrow> 'rs \<Rightarrow> 'rc \<Rightarrow> nat \<Rightarrow>
     ('ia, 'est, 'det, 'rs, 'rc) DelayBasedBwe" where
  "S3_state ops ia est det rs rc n =
     fst (IncomingPackets ops (DelayBasedBwe_new ia est det rs rc) (map S3_packet [0..<n]))"

definition S3_calls ::
  "('ia, 'est, 'det, 'rs, 'rc) Collaborators \<Rightarrow> 'ia \<Rightarrow> 'est \<Rightarrow> 'det \<Rightarrow> 'rs \<Rightarrow> 'rc \<Rightarrow> nat \<Rightarrow>
     (32 word list \<times> 32 word) option list" where
  "S3_calls ops ia est det rs rc n =
     snd (IncomingPackets ops (DelayBasedBwe_new ia est det rs rc) (map S3_packet [0..<n]))"

subsection \<open>The probe list\<close>

text \<open>The invariant of the probe list: fewer than 15 entries, or a cluster has formed.\<close>

definition probes_ok :: "('ia, 'est, 'det, 'rs, 'rc) DelayBasedBwe \<Rightarrow> bool" where
  "probes_ok st \<longleftrightarrow>
     length (probes st) < kMaxProbePackets \<or> ComputeClusters (probes st) \<noteq> []"

text \<open>
  What holds of every probe that IncomingPacketInfo stores: its send time is not negative
  and its cluster id is not \<open>kNotAProbe\<close>.
\<close>

definition stored_probe :: "Probe \<Rightarrow> bool" where
  "stored_probe q \<longleftrightarrow> 0 \<le> send_time_ms q \<and> cluster_id q \<noteq> kNotAProbe"

text \<open>Fifteen probes whose cluster id alternates: no two consecutive probes share a cluster.\<close>

definition alternating_probes :: "Probe list" where
  "alternating_probes =
     map (\<lambda>k. \<lparr>send_time_ms = 5 * int k, recv_time_ms = 6 * int k, payload_size = 1200,
                cluster_id = int (k mod 2)\<rparr>) [0..<15]"

subsection \<open>Best-cluster selection\<close>

text \<open>
  The clusters that FindBestProbe looks at: the longest prefix without a cluster that fails
  the test of lines 130-132 while its means are non-zero; and among them the candidates,
  whose means are non-zero.
\<close>

definition scanned :: "Cluster list \<Rightarrow> Cluster list" where
  "scanned cs = takeWhile (\<lambda>c. zero_mean c \<or> probe_ok c) cs"

definition candidates :: "Cluster list \<Rightarrow> Cluster list" where
  "candidates cs = filter (\<lambda>c. \<not> zero_mean c) (scanned cs)"

text \<open>
  The selection in the spec's words: the scan stops at the first cluster that does not
  qualify, and the qualifying cluster with the highest bitrate is chosen.
\<close>

definition claimed_FindBestProbe :: "Cluster list \<Rightarrow> Cluster option" where
  "claimed_FindBestProbe cs =
     (case takeWhile probe_ok cs of
        [] \<Rightarrow> None
      | q # qs \<Rightarrow>
          Some (fold (\<lambda>c b. if probe_bitrate_bps b < probe_bitrate_bps c then c else b) qs q))"

text \<open>
  Nine probes: five of cluster 0 whose send times go back and forth (reordering), then four
  of cluster 1 sent 5 ms and received 6 ms apart; and the two clusters computed from them.
\<close>

definition reordered_probes :: "Probe list" where
  "reordered_probes =
     [\<lparr>send_time_ms = 2, recv_time_ms = 0, payload_size = 1200, cluster_id = 0\<rparr>,
      \<lparr>send_time_ms = 0, recv_time_ms = 1, payload_size = 1200, cluster_id = 0\<rparr>,
      \<lparr>send_time_ms = 2, recv_time_ms = 2, payload_size = 1200, cluster_id = 0\<rparr>,
      \<lparr>send_time_ms = 0, recv_time_ms = 3, payload_size = 1200, cluster_id = 0\<rparr>,
      \<lparr>send_time_ms = 2, recv_time_ms = 3, payload_size = 1200, cluster_id = 0\<rparr>,
      \<lparr>send_time_ms = 7, recv_time_ms = 9, payload_size = 1200, cluster_id = 1\<rparr>,
      \<lparr>send_time_ms = 12, recv_time_ms = 15, payload_size = 1200, cluster_id = 1\<rparr>,
      \<lparr>send_time_ms = 17, recv_time_ms = 21, payload_size = 1200, cluster_id = 1\<rparr>,
      \<lparr>send_time_ms = 22, recv_time_ms = 27, payload_size = 1200, cluster_id = 1\<rparr>]"

definition reordered_cluster :: Cluster where
  "reordered_cluster =
     \<lparr>send_mean_ms = 0, recv_mean_ms = 3 / 4, mean_size = 1200, count = 4,
      num_above_min_delta = 2\<rparr>"

definition steady_cluster :: Cluster where
  "steady_cluster =
     \<lparr>send_mean_ms = 5, recv_mean_ms = 6, mean_size = 1200, count = 4,
      num_above_min_delta = 3\<rparr>"


subsection \<open>Deltas across a cluster boundary\<close>

text \<open>
  The deltas that ComputeClusters takes between consecutive times, starting from the time
  \<open>prev\<close> of the probe before the first one.
\<close>

fun deltas :: "int \<Rightarrow> int list \<Rightarrow> int list" where
  "deltas prev [] = []"
| "deltas prev (x # xs) = to_int32 (x - prev) # deltas x xs"

text \<open>
  The sum that the repeated \<open>mean += delta\<close> of lines 107-108 gives for a list of deltas,
  from the value \<open>m\<close>: every delta is converted to \<open>float\<close> and every sum is rounded.
\<close>

fun float_sum :: "real \<Rightarrow> int list \<Rightarrow> real" where
  "float_sum m [] = m"
| "float_sum m (d # ds) = float_sum (to_float (m + to_float (of_int d))) ds"

text \<open>
  The deltas \<open>d1, d2, ...\<close> and the sums \<open>s + d1\<close>, \<open>s + d1 + d2\<close>, ... are all at most
  \<open>2^24\<close> in magnitude, so that each of them is a binary32 number.
\<close>

fun small_sums :: "int \<Rightarrow> int list \<Rightarrow> bool" where
  "small_sums s [] = True"
| "small_sums s (d # ds) = (\<bar>d\<bar> \<le> 2 ^ 24 \<and> \<bar>s + d\<bar> \<le> 2 ^ 24 \<and> small_sums (s + d) ds)"

text \<open>
  A cluster boundary: a probe of cluster 0, then the first probe of cluster 1, sent 2 ms and
  received 3 ms after it, then four more probes of cluster 1, each sent and received 3 ms
  after the one before. The send deltas of cluster 1 are 2, 3, 3, 3, 3 and its receive
  deltas are 3, 3, 3, 3, 3.
\<close>

definition boundary_probe :: Probe where
  "boundary_probe = \<lparr>send_time_ms = 0, recv_time_ms = 0, payload_size = 1200, cluster_id = 0\<rparr>"

definition opening_probe :: Probe where
  "opening_probe = \<lparr>send_time_ms = 2, recv_time_ms = 3, payload_size = 1200, cluster_id = 1\<rparr>"

definition following_probes :: "Probe list" where
  "following_probes =
     [\<lparr>send_time_ms = 5, recv_time_ms = 6, payload_size = 1200, cluster_id = 1\<rparr>,
      \<lparr>send_time_ms = 8, recv_time_ms = 9, payload_size = 1200, cluster_id = 1\<rparr>,
      \<lparr>send_time_ms = 11, recv_time_ms = 12, payload_size = 1200, cluster_id = 1\<rparr>,
      \<lparr>send_time_ms = 14, recv_time_ms = 15, payload_size = 1200, cluster_id = 1\<rparr>]"

subsection \<open>A cluster whose bitrate is zero\<close>

text \<open>
  Five probes of 201 bytes sent 1700 s apart, each received 10 ms after it was sent, and
  the cluster computed from them. The cluster passes the test of lines 130-132 (all four
  deltas are above the minimum and the two means are equal), and both its bitrates,
  \<open>201*8*1000/1700000\<close>, truncate to 0.
\<close>

definition dispersed_probes :: "Probe list" where
  "dispersed_probes =
     [\<lparr>send_time_ms = 0, recv_time_ms = 10, payload_size = 201, cluster_id = 0\<rparr>,
      \<lparr>send_time_ms = 1700000, recv_time_ms = 1700010, payload_size = 201, cluster_id = 0\<rparr>,
      \<lparr>send_time_ms = 3400000, recv_time_ms = 3400010, payload_size = 201, cluster_id = 0\<rparr>,
      \<lparr>send_time_ms = 5100000, recv_time_ms = 5100010, payload_size = 201, cluster_id = 0\<rparr>,
      \<lparr>send_time_ms = 6800000, recv_time_ms = 6800010, payload_size = 201, cluster_id = 0\<rparr>]"

definition dispersed_cluster :: Cluster where
  "dispersed_cluster =
     \<lparr>send_mean_ms = 1700000, recv_mean_ms = 1700000, mean_size = 201, count = 4,
      num_above_min_delta = 4\<rparr>"

subsection \<open>Headers and extension blocks\<close>

text \<open>
  The header as Parse leaves its extension fields before the extension block is parsed
  (lines 234-254 of rtp_utility.cc); the fields that Parse does not set there are zero.
\<close>

definition cleared_header :: RTPHeader where
  "cleared_header =
     \<lparr>ssrc = 0,
      extension =
        \<lparr>hasTransmissionTimeOffset = False, transmissionTimeOffset = 0,
         hasAbsoluteSendTime = False, absoluteSendTime = 0,
         hasAudioLevel = False, voiceActivity = False, audioLevel = 0,
         hasVideoRotation = False, videoRotation = kVideoRotation_0,
         hasTransportSequenceNumber = False, transportSequenceNumber = 0,
         playout_delay = \<lparr>min_ms = - 1, max_ms = - 1\<rparr>,
         frameMarks = \<lparr>startOfFrame = 0, endOfFrame = 0, independent = 0, discardable = 0,
                        baseLayerSync = 0, temporalLayerId = 0, spatialLayerId = 0,
                        tl0PicIdx = 0\<rparr>\<rparr>\<rparr>"

text \<open>
  An extension map that registers id 1 as the transmission time offset, id 3 as the
  absolute send time and id 5 as the frame marking.
\<close>

definition sample_map :: RtpHeaderExtensionMap where
  "sample_map =
     \<lparr>GetType = (\<lambda>id. if id = 1 then kRtpExtensionTransmissionTimeOffset
                       else if id = 3 then kRtpExtensionAbsoluteSendTime
                       else if id = 5 then kRtpExtensionFrameMarking
                       else kInvalidType),
      ConvertCVOByteToVideoRotation = (\<lambda>_. kVideoRotation_0)\<rparr>"

text \<open>
  An extension block of two elements: a transmission time offset whose length field is 1
  (two data bytes instead of three), then a well-formed absolute send time 0x010203.
\<close>

definition mismatch_block :: "8 word list" where
  "mismatch_block = [0x11, 0x00, 0x00, 0x32, 0x01, 0x02, 0x03]"

text \<open>
  Frame marking elements as the comment of the parser draws them (lines 459-473): the
  non-scalable form, length field 0 and one data byte with the S bit set; and the scalable
  form, length field 2 and three data bytes.
\<close>

definition frame_marking_short :: "8 word list" where
  "frame_marking_short = [0x50, 0x80]"

definition frame_marking_long :: "8 word list" where
  "frame_marking_long = [0x52, 0x80, 0x01, 0x02]"

text \<open>
  The length that the switch accepts for each recognised extension type, read off its
  cases: \<open>wrong_length type len\<close> holds when the case of \<open>type\<close> rejects \<open>len\<close>.
\<close>

definition wrong_length :: "RTPExtensionType \<Rightarrow> nat \<Rightarrow> bool" where
  "wrong_length type len =
     (case type of
        kRtpExtensionTransmissionTimeOffset \<Rightarrow> len \<noteq> 2
      | kRtpExtensionAudioLevel \<Rightarrow> len \<noteq> 0
      | kRtpExtensionAbsoluteSendTime \<Rightarrow> len \<noteq> 2
      | kRtpExtensionVideoRotation \<Rightarrow> len \<noteq> 0
      | kRtpExtensionTransportSequenceNumber \<Rightarrow> len \<noteq> 1
      | kRtpExtensionPlayoutDelay \<Rightarrow> len \<noteq> 2
      | kRtpExtensionFrameMarking \<Rightarrow> len \<noteq> 1 \<and> len \<noteq> 3
      | kRtpExtensionNone \<Rightarrow> False
      | kRtpExtensionNumberOfExtensions \<Rightarrow> False)"

text \<open>
  The parser in the spec's words: a length mismatch aborts the parsing of that extension
  element only, and the loop goes on with the next element.
\<close>

function claimed_parse_loop ::
  "RtpHeaderExtensionMap \<Rightarrow> RTPHeader \<Rightarrow> 8 word list \<Rightarrow> RTPHeader" where
  "claimed_parse_loop m header [] = header"
| "claimed_parse_loop m header (b # ptr) =
     (if element_id b = 0 then claimed_parse_loop m header ptr
      else if element_id b = 15 then header
      else if length ptr < element_len b + 1 then header
      else (case parse_element m header (GetType m (element_id b)) (element_len b) ptr of
              None \<Rightarrow> claimed_parse_loop m header (drop (element_len b + 1) ptr)
            | Some header' \<Rightarrow> claimed_parse_loop m header' (drop (element_len b + 1) ptr)))"
  by pat_completeness auto
termination
  by (relation "measure (\<lambda>(m, header, ptr). length ptr)") auto

subsection \<open>A state with a valid estimate of zero\<close>

definition zero_estimate_state :: "(unit, unit, unit, unit, 32 word option) DelayBasedBwe" where
  "zero_estimate_state = (DelayBasedBwe_new () () () () (Some 0))\<lparr>ssrcs := [(1, 0)]\<rparr>"

text \<open>A state with two streams, last seen at 0 ms and at 1500 ms.\<close>

definition two_streams_state :: "(unit, unit, unit, unit, 32 word option) DelayBasedBwe" where
  "two_streams_state = (DelayBasedBwe_new () () () () None)\<lparr>ssrcs := [(1, 0), (2, 1500)]\<rparr>"

text \<open>
  Collaborators whose inter-arrival filter and estimator count the calls made on them since
  they were constructed, so that a newly constructed one can be told from one that was
  kept; and a state of them with the same two streams, a first packet at 0 ms, an
  inter-arrival filter that has seen 7 packets and an estimator that has been updated 3
  times.
\<close>

definition counting_ops :: "(nat, nat, unit, unit, 32 word option) Collaborators" where
  "counting_ops =
     \<lparr>InterArrival_new = (\<lambda>_ _ _. 0),
      ComputeDeltas = (\<lambda>ia _ _ _. (Suc ia, None)),
      OveruseEstimator_new = 0,
      estimator_Update = (\<lambda>est _ _ _ _. Suc est),
      Detect = (\<lambda>_ _ _ _. ()),
      State = (\<lambda>_. kBwNormal),
      incoming_Update = (\<lambda>_ _ _. ()),
      Rate = (\<lambda>_ _. ((), None)),
      ValidEstimate = (\<lambda>rc. rc \<noteq> None),
      rate_LatestEstimate = (\<lambda>rc. case rc of None \<Rightarrow> 0 | Some b \<Rightarrow> b),
      SetEstimate = (\<lambda>_ b _. Some (word_of_int b)),
      GetFeedbackInterval = (\<lambda>_. 1000),
      TimeToReduceFurther = (\<lambda>_ _ _. False),
      rate_Update = (\<lambda>rc _ _ _ _. rc),
      UpdateBandwidthEstimate = (\<lambda>rc _. (rc, case rc of None \<Rightarrow> 0 | Some b \<Rightarrow> b))\<rparr>"

definition counted_streams_state :: "(nat, nat, unit, unit, 32 word option) DelayBasedBwe" where
  "counted_streams_state =
     (DelayBasedBwe_new 7 3 () () None)\<lparr>first_packet_time_ms := 0, ssrcs := [(1, 0), (2, 1500)]\<rparr>"

section \<open>Properties of the probe analyser\<close>

subsection \<open>Rounding to binary32\<close>

lemma float_exponent_eq:
  assumes "2 powi e \<le> \<bar>x\<bar>" "\<bar>x\<bar> < 2 powi (e + 1)"
  shows "float_exponent x = e"
proof -
  have pos: "0 < \<bar>x\<bar>" using assms(1) by (smt (verit) zero_less_power_int)
  have "(2::real) powr (of_int e) = 2 powi e"
    by (rule powr_real_of_int') simp_all
  moreover have "(2::real) powr (of_int e + 1) = 2 powi (e + 1)"
    using powr_real_of_int' [of 2 "e + 1"] by simp
  ultimately show ?thesis
    unfolding float_exponent_def using assms pos
    by (subst floor_log_eq_powr_iff) simp_all
qed

lemma round_to_even_of_int: "round_to_even (of_int k) = k"
  by (simp add: round_to_even_def)

text \<open>The rounding of a number whose exponent is known.\<close>

lemma to_float_eval:
  assumes "2 powi e \<le> \<bar>x\<bar>" "\<bar>x\<bar> < 2 powi (e + 1)"
  shows "to_float x = of_int (round_to_even (x / 2 powi (e - 23))) * 2 powi (e - 23)"
proof -
  have "x \<noteq> 0" using assms(1) by (smt (verit) zero_less_power_int)
  then show ?thesis by (simp add: to_float_def float_exponent_eq [OF assms])
qed

text \<open>Every integer of magnitude at most \<open>2^24\<close> is a binary32 number.\<close>

lemma to_float_of_int:
  assumes "\<bar>n\<bar> \<le> 2 ^ 24"
  shows "to_float (of_int n) = of_int n"
proof (cases "n = 0")
  case True
  then show ?thesis by (simp add: to_float_def)
next
  case False
  define x where "x = (of_int n :: real)"
  define e where "e = float_exponent x"
  have x1: "1 \<le> \<bar>x\<bar>"
  proof -
    have "1 \<le> \<bar>n\<bar>" using False by arith
    then have "(1::real) \<le> of_int \<bar>n\<bar>" by (simp only: of_int_1_le_iff)
    then show ?thesis by (simp add: x_def)
  qed
  have x2: "\<bar>x\<bar> \<le> 2 ^ 24"
  proof -
    have "(of_int \<bar>n\<bar> :: real) \<le> of_int (2 ^ 24)" using assms by (simp only: of_int_le_iff)
    then show ?thesis by (simp add: x_def)
  qed
  have "log 2 \<bar>x\<bar> \<le> log 2 (2 ^ 24)"
    using x1 x2 by (subst log_le_cancel_iff) simp_all
  moreover have "log 2 ((2::real) ^ 24) = of_nat 24 * log 2 2"
    by (rule log_nat_power) simp
  ultimately have "log 2 \<bar>x\<bar> \<le> 24" by simp
  then have e24: "e \<le> 24"
    unfolding e_def float_exponent_def by (simp add: floor_le_iff)
  have pw: "(2::real) powr (of_int e) = 2 powi e"
    by (rule powr_real_of_int') simp_all
  have pw1: "(2::real) powr (of_int e + 1) = 2 powi (e + 1)"
    using powr_real_of_int' [of 2 "e + 1"] by simp
  have "\<lfloor>log 2 \<bar>x\<bar>\<rfloor> = e" by (simp add: e_def float_exponent_def)
  then have "2 powr (of_int e) \<le> \<bar>x\<bar> \<and> \<bar>x\<bar> < 2 powr (of_int e + 1)"
    using x1 by (subst (asm) floor_log_eq_powr_iff) simp_all
  then have lo: "2 powi e \<le> \<bar>x\<bar>"
    using pw by simp
  have xn: "x \<noteq> 0" using x1 by auto
  have "to_float x = x"
  proof (cases "e = 24")
    case True
    then have "2 ^ 24 \<le> \<bar>x\<bar>" using lo by simp
    then have "\<bar>x\<bar> = 2 ^ 24" using x2 by simp
    then have "x = 2 ^ 24 \<or> x = - (2 ^ 24)" by (simp add: abs_if split: if_splits)
    then show ?thesis
      using True xn by (auto simp add: to_float_def e_def [symmetric] round_to_even_def)
  next
    case False
    then have le: "e \<le> 23" using e24 by simp
    define j where "j = nat (23 - e)"
    have u: "(2::real) powi (e - 23) = 1 / 2 ^ j"
      using le by (simp add: power_int_def j_def inverse_eq_divide power_one_over)
    have "x / 2 powi (e - 23) = of_int (n * 2 ^ j)"
      by (simp add: u x_def)
    then have r: "round_to_even (x / 2 powi (e - 23)) = n * 2 ^ j"
      by (simp only: round_to_even_of_int)
    have "to_float x = of_int (round_to_even (x / 2 powi (e - 23))) * 2 powi (e - 23)"
      using xn by (simp add: to_float_def e_def)
    also have "\<dots> = of_int (n * 2 ^ j) * 2 powi (e - 23)"
      by (simp only: r)
    also have "\<dots> = of_int (n * 2 ^ j) * (1 / 2 ^ j)"
      by (simp only: u)
    also have "\<dots> = x"
      by (simp add: x_def)
    finally show ?thesis .
  qed
  then show ?thesis by (simp add: x_def)
qed

lemma to_float_numeral:
  "numeral w \<le> (16777216::int) \<Longrightarrow> to_float (numeral w) = numeral w"
  using to_float_of_int [of "numeral w"] by simp

lemma to_float_neg_numeral:
  "numeral w \<le> (16777216::int) \<Longrightarrow> to_float (- numeral w) = - numeral w"
  using to_float_of_int [of "- numeral w"] by simp

lemma to_float_0: "to_float 0 = 0"
  by (simp add: to_float_def)

lemma to_float_1: "to_float 1 = 1"
  using to_float_of_int [of 1] by simp

text \<open>
  Numbers that are not binary32 numbers are rounded: \<open>7/5\<close> and \<open>17/5\<close> become
  1.39999998 and 3.4000001, and the difference of these two, \<open>2 + 2^-23\<close>, lies half-way
  between two binary32 numbers and is rounded to the even one, 2.
\<close>

lemma to_float_rounds:
  "to_float (7 / 5) = 11744051 / 8388608"
  "to_float (17 / 5) = 7130317 / 2097152"
  "to_float (7130317 / 2097152 - 11744051 / 8388608) = 2"
proof -
  show "to_float (7 / 5) = 11744051 / 8388608"
    by (subst to_float_eval [of 0]) (simp_all add: round_to_even_def power_int_minus)
  show "to_float (17 / 5) = 7130317 / 2097152"
    by (subst to_float_eval [of 1]) (simp_all add: round_to_even_def power_int_minus)
  show "to_float (7130317 / 2097152 - 11744051 / 8388608) = 2"
    by (subst to_float_eval [of 1]) (simp_all add: round_to_even_def power_int_minus)
qed

lemma to_float_minus_1: "to_float (- 1) = - 1"
  using to_float_of_int [of "- 1"] by simp

lemmas to_float_simps =
  to_float_0 to_float_1 to_float_minus_1 to_float_numeral to_float_neg_numeral

subsection \<open>The loop of ComputeClusters\<close>

lemma cc_loop_append: "cc_loop s (xs @ ys) = cc_loop (cc_loop s xs) ys"
  by (induction xs arbitrary: s) simp_all

lemma AddCluster_not_Nil: "AddCluster cs c \<noteq> []"
  by (simp add: AddCluster_def)

lemma cc_finish_not_Nil_iff:
  "cc_finish s \<noteq> [] \<longleftrightarrow> clusters s \<noteq> [] \<or> kMinClusterSize \<le> count (current s)"
  by (simp add: cc_finish_def AddCluster_not_Nil)

text \<open>A cluster, once formed, does not disappear when a probe is appended.\<close>

lemma cc_step_keeps_cluster:
  assumes "cc_finish s \<noteq> []"
  shows "cc_finish (cc_step s p) \<noteq> []"
  using assms
  by (auto simp: cc_finish_not_Nil_iff cc_step_def Let_def accumulate_def AddCluster_not_Nil)

lemma ComputeClusters_snoc_not_Nil:
  "ComputeClusters ps \<noteq> [] \<Longrightarrow> ComputeClusters (ps @ [p]) \<noteq> []"
  by (simp add: ComputeClusters_def cc_loop_append cc_step_keeps_cluster)

subsection \<open>What each stage of IncomingPacketInfo leaves unchanged\<close>

lemma TimeoutStreams_frame:
  "probes (TimeoutStreams ops st now) = probes st"
  "remote_rate (TimeoutStreams ops st now) = remote_rate st"
  "first_packet_time_ms (TimeoutStreams ops st now) = first_packet_time_ms st"
  "incoming_bitrate (TimeoutStreams ops st now) = incoming_bitrate st"
  "detector (TimeoutStreams ops st now) = detector st"
  "last_update_ms (TimeoutStreams ops st now) = last_update_ms st"
  "total_probes_received (TimeoutStreams ops st now) = total_probes_received st"
  by (simp_all add: TimeoutStreams_def Let_def)

lemma enter_stage_frame:
  "probes (enter_stage ops st now sz src) = probes st"
  "remote_rate (enter_stage ops st now sz src) = remote_rate st"
  "first_packet_time_ms (enter_stage ops st now sz src) =
     (if first_packet_time_ms st = - 1 then now else first_packet_time_ms st)"
  by (simp_all add: enter_stage_def Let_def TimeoutStreams_frame)

lemma enter_stage_ssrcs:
  "ssrcs (enter_stage ops st now sz src) =
     map_assign src now (filter (\<lambda>(k, seen). \<not> kStreamTimeOutMs < now - seen) (ssrcs st))"
  by (simp add: enter_stage_def Let_def TimeoutStreams_def)

lemma delay_stage_frame:
  "probes (delay_stage ops st ts now sz) = probes st"
  "remote_rate (delay_stage ops st ts now sz) = remote_rate st"
  "first_packet_time_ms (delay_stage ops st ts now sz) = first_packet_time_ms st"
  "ssrcs (delay_stage ops st ts now sz) = ssrcs st"
  by (simp_all add: delay_stage_def Let_def split: prod.splits option.splits)

lemma due_stage_frame:
  "probes (fst (due_stage ops st now u)) = probes st"
  "remote_rate (fst (due_stage ops st now u)) = remote_rate st"
  "first_packet_time_ms (fst (due_stage ops st now u)) = first_packet_time_ms st"
  "ssrcs (fst (due_stage ops st now u)) = ssrcs st"
  by (simp_all add: due_stage_def Let_def split: prod.splits option.splits)

lemma update_stage_frame:
  "probes (fst (update_stage ops st now u)) = probes st"
  "first_packet_time_ms (fst (update_stage ops st now u)) = first_packet_time_ms st"
  "ssrcs (fst (update_stage ops st now u)) = ssrcs st"
  by (simp_all add: update_stage_def Let_def split: prod.splits option.splits)

lemma ProcessClusters_frame:
  "first_packet_time_ms (snd (ProcessClusters ops st now)) = first_packet_time_ms st"
  "ssrcs (snd (ProcessClusters ops st now)) = ssrcs st"
  by (simp_all add: ProcessClusters_def Let_def split: option.splits)

lemma probe_stage_frame:
  "first_packet_time_ms (fst (probe_stage ops st now t sz cid)) = first_packet_time_ms st"
  "ssrcs (fst (probe_stage ops st now t sz cid)) = ssrcs st"
  by (simp_all add: probe_stage_def Let_def ProcessClusters_frame case_prod_beta)

lemma IncomingPacketInfo_probes:
  "probes (fst (IncomingPacketInfo ops st now s24 sz src cid)) =
   probes (fst (probe_stage ops (enter_stage ops st now sz src) now
                  (send_time_of (upshift s24)) sz cid))"
  by (simp add: IncomingPacketInfo_def Let_def case_prod_beta update_stage_frame
      due_stage_frame delay_stage_frame)

lemma IncomingPacketInfo_first:
  "first_packet_time_ms (fst (IncomingPacketInfo ops st now s24 sz src cid)) =
     (if first_packet_time_ms st = - 1 then now else first_packet_time_ms st)"
  by (simp add: IncomingPacketInfo_def Let_def case_prod_beta update_stage_frame
      due_stage_frame delay_stage_frame probe_stage_frame enter_stage_frame)

lemma IncomingPacketInfo_ssrcs:
  "ssrcs (fst (IncomingPacketInfo ops st now s24 sz src cid)) =
     map_assign src now (filter (\<lambda>(k, seen). \<not> kStreamTimeOutMs < now - seen) (ssrcs st))"
  by (simp add: IncomingPacketInfo_def Let_def case_prod_beta update_stage_frame
      due_stage_frame delay_stage_frame probe_stage_frame enter_stage_ssrcs)

subsection \<open>The delay filters through the stages of IncomingPacketInfo\<close>

lemma enter_stage_filters:
  "inter_arrival (enter_stage ops st now sz src) = inter_arrival (TimeoutStreams ops st now)"
  "estimator (enter_stage ops st now sz src) = estimator (TimeoutStreams ops st now)"
  "detector (enter_stage ops st now sz src) = detector st"
  by (simp_all add: enter_stage_def TimeoutStreams_def Let_def)

lemma probe_stage_filters:
  "inter_arrival (fst (probe_stage ops st now t sz cid)) = inter_arrival st"
  "estimator (fst (probe_stage ops st now t sz cid)) = estimator st"
  "detector (fst (probe_stage ops st now t sz cid)) = detector st"
  "incoming_bitrate (fst (probe_stage ops st now t sz cid)) = incoming_bitrate st"
  by (simp_all add: probe_stage_def ProcessClusters_def Let_def case_prod_beta
      split: option.splits)

lemma delay_stage_filters:
  "inter_arrival (delay_stage ops st ts now sz) = fst (ComputeDeltas ops (inter_arrival st) ts now sz)"
  "estimator (delay_stage ops st ts now sz) =
     (case snd (ComputeDeltas ops (inter_arrival st) ts now sz) of
        None \<Rightarrow> estimator st
      | Some (ts_delta, t_delta, size_delta) \<Rightarrow>
          estimator_Update ops (estimator st) t_delta
            (1000 * of_int (uint ts_delta) / 2 ^ 26) size_delta (State ops (detector st)))"
  by (simp_all add: delay_stage_def Let_def kInterArrivalShift_def kAbsSendTimeFraction_def
      kAbsSendTimeInterArrivalUpshift_def split: prod.splits option.splits)

lemma due_stage_filters:
  "inter_arrival (fst (due_stage ops st now u)) = inter_arrival st"
  "estimator (fst (due_stage ops st now u)) = estimator st"
  by (simp_all add: due_stage_def Let_def split: prod.splits option.splits)

lemma update_stage_filters:
  "inter_arrival (fst (update_stage ops st now u)) = inter_arrival st"
  "estimator (fst (update_stage ops st now u)) = estimator st"
  by (simp_all add: update_stage_def Let_def case_prod_beta)

lemma IncomingPacketInfo_filters:
  "inter_arrival (fst (IncomingPacketInfo ops st now s24 sz src cid)) =
     fst (ComputeDeltas ops (inter_arrival (TimeoutStreams ops st now)) (upshift s24) now sz)"
  "estimator (fst (IncomingPacketInfo ops st now s24 sz src cid)) =
     (case snd (ComputeDeltas ops (inter_arrival (TimeoutStreams ops st now)) (upshift s24)
                  now sz) of
        None \<Rightarrow> estimator (TimeoutStreams ops st now)
      | Some (ts_delta, t_delta, size_delta) \<Rightarrow>
          estimator_Update ops (estimator (TimeoutStreams ops st now)) t_delta
            (1000 * of_int (uint ts_delta) / 2 ^ 26) size_delta (State ops (detector st)))"
  by (simp_all add: IncomingPacketInfo_def Let_def case_prod_beta update_stage_filters
      due_stage_filters delay_stage_filters probe_stage_filters enter_stage_filters
      split: option.splits)

text \<open>
  The detector, the estimator and the rate counter after the delay stage do not depend on
  what the probe stage has done before it.
\<close>

lemma delay_stage_after_probe_stage:
  "detector (delay_stage ops (fst (probe_stage ops st now t sz cid)) ts now' sz') =
     detector (delay_stage ops st ts now' sz')"
  "estimator (delay_stage ops (fst (probe_stage ops st now t sz cid)) ts now' sz') =
     estimator (delay_stage ops st ts now' sz')"
  "incoming_bitrate (delay_stage ops (fst (probe_stage ops st now t sz cid)) ts now' sz') =
     incoming_bitrate (delay_stage ops st ts now' sz')"
  by (simp_all add: delay_stage_def Let_def probe_stage_filters
      split: prod.splits option.splits)

subsection \<open>The probe list after ProcessClusters\<close>

lemma ProcessClusters_probes_some:
  "ComputeClusters (probes st) \<noteq> [] \<Longrightarrow>
   probes (snd (ProcessClusters ops st now)) = probes st \<or>
   probes (snd (ProcessClusters ops st now)) = []"
  by (simp add: ProcessClusters_def Let_def split: option.splits)

lemma ProcessClusters_probes_few:
  "ComputeClusters (probes st) \<noteq> [] \<Longrightarrow>
   length (ComputeClusters (probes st)) < kExpectedNumberOfProbes \<Longrightarrow>
   probes (snd (ProcessClusters ops st now)) = probes st"
  by (simp add: ProcessClusters_def Let_def split: option.splits)

lemma ProcessClusters_probes_none:
  "ComputeClusters (probes st) = [] \<Longrightarrow> length (probes st) < kMaxProbePackets \<Longrightarrow>
   probes (snd (ProcessClusters ops st now)) = probes st"
  by (simp add: ProcessClusters_def Let_def split: option.splits)

lemma push_ProcessClusters_ok:
  assumes "probes_ok st"
  shows "probes_ok (snd (ProcessClusters ops
           (st\<lparr>probes := probes st @ [p], total_probes_received := n\<rparr>) now))"
proof (cases "ComputeClusters (probes st @ [p]) = []")
  case True
  then have "ComputeClusters (probes st) = []"
    using ComputeClusters_snoc_not_Nil by blast
  with assms have "length (probes st) < kMaxProbePackets"
    by (simp add: probes_ok_def)
  with True show ?thesis
    by (auto simp: probes_ok_def ProcessClusters_def Let_def kMaxProbePackets_def)
next
  case False
  then have "probes (snd (ProcessClusters ops
                 (st\<lparr>probes := probes st @ [p], total_probes_received := n\<rparr>) now)) =
               probes st @ [p]
     \<or> probes (snd (ProcessClusters ops
                 (st\<lparr>probes := probes st @ [p], total_probes_received := n\<rparr>) now)) = []"
    using ProcessClusters_probes_some
      [of "st\<lparr>probes := probes st @ [p], total_probes_received := n\<rparr>" ops now]
    by simp
  with False show ?thesis
    by (auto simp: probes_ok_def kMaxProbePackets_def)
qed

lemma probe_stage_ok:
  assumes "probes_ok st"
  shows "probes_ok (fst (probe_stage ops st now t sz cid))"
  using assms push_ProcessClusters_ok
    [OF assms, where ops = ops and n = "total_probes_received st + 1" and now = now]
  by (simp add: probe_stage_def Let_def case_prod_beta)

lemma IncomingPacketInfo_ok:
  assumes "probes_ok st"
  shows "probes_ok (fst (IncomingPacketInfo ops st now s24 sz src cid))"
proof -
  have "probes_ok (enter_stage ops st now sz src)"
    using assms by (simp add: probes_ok_def enter_stage_frame)
  then have "probes_ok (fst (probe_stage ops (enter_stage ops st now sz src) now
                               (send_time_of (upshift s24)) sz cid))"
    by (rule probe_stage_ok)
  then show ?thesis
    by (simp add: probes_ok_def IncomingPacketInfo_probes)
qed

lemma IncomingPackets_ok:
  "probes_ok st \<Longrightarrow> probes_ok (fst (IncomingPackets ops st ps))"
  by (induction ps arbitrary: st) (simp_all add: case_prod_beta Let_def IncomingPacketInfo_ok)

lemma probe_stage_probes_kept:
  assumes "is_probe ops st now sz cid"
    and "ComputeClusters (probes st @ [\<lparr>send_time_ms = t, recv_time_ms = now,
            payload_size = sz, cluster_id = cid\<rparr>]) = []
           \<and> Suc (length (probes st)) < kMaxProbePackets
         \<or> ComputeClusters (probes st @ [\<lparr>send_time_ms = t, recv_time_ms = now,
            payload_size = sz, cluster_id = cid\<rparr>]) \<noteq> []
           \<and> length (ComputeClusters (probes st @ [\<lparr>send_time_ms = t, recv_time_ms = now,
            payload_size = sz, cluster_id = cid\<rparr>])) < kExpectedNumberOfProbes"
  shows "probes (fst (probe_stage ops st now t sz cid)) =
           probes st @ [\<lparr>send_time_ms = t, recv_time_ms = now, payload_size = sz,
                         cluster_id = cid\<rparr>]"
  using assms
  by (auto simp: probe_stage_def Let_def case_prod_beta ProcessClusters_probes_none
      ProcessClusters_probes_few)

lemma probe_stage_rate_no_cluster:
  assumes "ComputeClusters (probes st @ [\<lparr>send_time_ms = t, recv_time_ms = now,
            payload_size = sz, cluster_id = cid\<rparr>]) = []"
  shows "remote_rate (fst (probe_stage ops st now t sz cid)) = remote_rate st"
  using assms by (simp add: probe_stage_def ProcessClusters_def Let_def)

lemma probe_stage_seeds:
  assumes "is_probe ops st now sz cid"
    and "FindBestProbe (ComputeClusters (probes st @ [\<lparr>send_time_ms = t, recv_time_ms = now,
           payload_size = sz, cluster_id = cid\<rparr>])) = Some c"
    and "IsBitrateImproving ops (remote_rate st) (probe_bitrate_bps c)"
  shows "probe_stage ops st now t sz cid =
           (st\<lparr>probes := probes st @ [\<lparr>send_time_ms = t, recv_time_ms = now,
                                        payload_size = sz, cluster_id = cid\<rparr>],
               total_probes_received := total_probes_received st + 1,
               remote_rate := SetEstimate ops (remote_rate st) (probe_bitrate_bps c) now\<rparr>,
            True)"
proof -
  from assms(2) have "ComputeClusters (probes st @ [\<lparr>send_time_ms = t, recv_time_ms = now,
      payload_size = sz, cluster_id = cid\<rparr>]) \<noteq> []"
    by (auto simp: FindBestProbe_def)
  with assms show ?thesis
    by (simp add: probe_stage_def ProcessClusters_def Let_def)
qed

lemma update_stage_call:
  "snd (update_stage ops st now True) =
     (let x = UpdateBandwidthEstimate ops
                (rate_Update ops (remote_rate st) (State ops (detector st))
                   (snd (Rate ops (incoming_bitrate st) now)) (estimator st) now) now
      in if ValidEstimate ops (fst x) then Some (Keys (ssrcs st), snd x) else None)"
  by (simp add: update_stage_def Let_def case_prod_beta)

lemma IncomingPacketInfo_forced:
  assumes "snd (probe_stage ops (enter_stage ops st now sz src) now
                  (send_time_of (upshift s24)) sz cid)"
  shows "snd (IncomingPacketInfo ops st now s24 sz src cid) =
     snd (update_stage ops
            (delay_stage ops
               (fst (probe_stage ops (enter_stage ops st now sz src) now
                       (send_time_of (upshift s24)) sz cid))
               (upshift s24) now sz) now True)"
  using assms by (simp add: IncomingPacketInfo_def Let_def case_prod_beta due_stage_def)

subsection \<open>Sequences of packets\<close>

lemma IncomingPackets_snoc:
  "IncomingPackets ops st (ps @ [p]) =
     (let r = IncomingPackets ops st ps;
          q = IncomingPacketInfo ops (fst r) (arrival_time_ms p) (send_time_24bits p)
                (payload_size_bytes p) (packet_ssrc p) (probe_cluster_id p)
      in (fst q, snd r @ [snd q]))"
  by (induction ps arbitrary: st) (simp_all add: case_prod_beta Let_def)

lemma length_IncomingPackets: "length (snd (IncomingPackets ops st ps)) = length ps"
  by (induction ps arbitrary: st) (simp_all add: case_prod_beta Let_def)


subsection \<open>The probes that are stored\<close>

lemma send_time_of_nonneg: "0 \<le> send_time_of ts"
proof -
  have "(0::real) \<le> of_int (uint ts)"
    by (simp only: of_int_0_le_iff uint_ge_0)
  then have "0 \<le> real_of_int (uint ts) * kTimestampToMs"
    unfolding kTimestampToMs_def by (intro mult_nonneg_nonneg divide_nonneg_nonneg) simp_all
  then show ?thesis
    by (simp add: send_time_of_def trunc_def)
qed

lemma oldest_dropped_member: "q \<in> set (tl ps) \<Longrightarrow> q \<in> set ps"
  by (cases ps) simp_all

lemma ProcessClusters_probes_subset:
  "set (probes (snd (ProcessClusters ops st now))) \<subseteq> set (probes st)"
  by (auto simp: ProcessClusters_def Let_def split: option.splits dest: oldest_dropped_member)

lemma probe_stage_stored:
  assumes "list_all stored_probe (probes st)" and "0 \<le> t"
  shows "list_all stored_probe (probes (fst (probe_stage ops st now t sz cid)))"
proof (cases "is_probe ops st now sz cid")
  case False
  with assms show ?thesis by (simp add: probe_stage_def)
next
  case True
  let ?st = "st\<lparr>probes := probes st @ [\<lparr>send_time_ms = t, recv_time_ms = now,
                payload_size = sz, cluster_id = cid\<rparr>],
              total_probes_received := total_probes_received st + 1\<rparr>"
  from True have "cid \<noteq> kNotAProbe" by (simp add: is_probe_def)
  with assms have "list_all stored_probe (probes ?st)"
    by (simp add: stored_probe_def)
  moreover have "set (probes (snd (ProcessClusters ops ?st now))) \<subseteq> set (probes ?st)"
    by (rule ProcessClusters_probes_subset)
  ultimately have "list_all stored_probe (probes (snd (ProcessClusters ops ?st now)))"
    by (auto simp: list_all_iff)
  with True show ?thesis
    by (simp add: probe_stage_def Let_def case_prod_beta)
qed

lemma IncomingPacketInfo_stored:
  assumes "list_all stored_probe (probes st)"
  shows "list_all stored_probe (probes (fst (IncomingPacketInfo ops st now s24 sz src cid)))"
  using probe_stage_stored [of "enter_stage ops st now sz src" "send_time_of (upshift s24)"]
    assms
  by (simp add: IncomingPacketInfo_probes enter_stage_frame send_time_of_nonneg)

lemma IncomingPackets_stored:
  "list_all stored_probe (probes st) \<Longrightarrow>
   list_all stored_probe (probes (fst (IncomingPackets ops st ps)))"
  by (induction ps arbitrary: st) (simp_all add: case_prod_beta Let_def IncomingPacketInfo_stored)

lemma stored_probes_wellformed:
  "list_all stored_probe
     (probes (fst (IncomingPackets ops (DelayBasedBwe_new ia est det rs rc) ps)))"
  by (rule IncomingPackets_stored) (simp add: DelayBasedBwe_new_def)

subsection \<open>Scenario S3 under any collaborators\<close>

lemma S3_state_Suc:
  "S3_state ops ia est det rs rc (Suc n) =
     fst (IncomingPacketInfo ops (S3_state ops ia est det rs rc n) (6 * int n)
            (send_time_24bits (S3_packet n)) 1200 1 0)"
  by (simp add: S3_state_def IncomingPackets_snoc Let_def) (simp add: S3_packet_def)

lemma S3_calls_Suc:
  "S3_calls ops ia est det rs rc (Suc n) =
     S3_calls ops ia est det rs rc n @
     [snd (IncomingPacketInfo ops (S3_state ops ia est det rs rc n) (6 * int n)
            (send_time_24bits (S3_packet n)) 1200 1 0)]"
  by (simp add: S3_state_def S3_calls_def IncomingPackets_snoc Let_def) (simp add: S3_packet_def)

lemma length_S3_calls: "length (S3_calls ops ia est det rs rc n) = n"
  by (simp add: S3_calls_def length_IncomingPackets)

text \<open>The 24-bit send times of the scenario are stored as 0, 5, 10, ... ms.\<close>

lemma S3_send_time:
  assumes "k < 16"
  shows "send_time_of (upshift (send_time_24bits (S3_packet k))) = 5 * int k"
proof -
  from assms have "k = 0 \<or> k = 1 \<or> k = 2 \<or> k = 3 \<or> k = 4 \<or> k = 5 \<or> k = 6 \<or> k = 7
    \<or> k = 8 \<or> k = 9 \<or> k = 10 \<or> k = 11 \<or> k = 12 \<or> k = 13 \<or> k = 14 \<or> k = 15"
    by arith
  then show ?thesis
    by (elim disjE)
      (simp_all add: S3_packet_def send_time_of_def upshift_def
        kAbsSendTimeInterArrivalUpshift_def kTimestampToMs_def kInterArrivalShift_def
        kAbsSendTimeFraction_def trunc_def)
qed

lemma to_int32_small: "to_int32 5 = 5" "to_int32 6 = 6"
  by (simp_all add: to_int32_def)

lemma S3_cc_loop:
  "n \<le> 1000 \<Longrightarrow>
   cc_loop cc_init (map S3_probe [0..<Suc n]) =
     \<lparr>current = \<lparr>send_mean_ms = 5 * of_nat n, recv_mean_ms = 6 * of_nat n,
                  mean_size = 1200 * n, count = int n, num_above_min_delta = int n\<rparr>,
      prev_send_time = 5 * int n, prev_recv_time = 6 * int n,
      last_probe_cluster_id = 0, clusters = []\<rparr>"
proof (induction n)
  case 0
  show ?case
    by (simp add: cc_init_def cc_step_def S3_probe_def Cluster_new_def Let_def)
next
  case (Suc n)
  from Suc.prems have n: "n \<le> 1000" by simp
  have a: "to_float (5 * of_nat n + 5) = 5 * of_nat (Suc n)"
    using to_float_of_int [of "5 * int n + 5"] n by (simp add: algebra_simps)
  have b: "to_float (6 * of_nat n + 6) = 6 * of_nat (Suc n)"
    using to_float_of_int [of "6 * int n + 6"] n by (simp add: algebra_simps)
  have "cc_loop cc_init (map S3_probe [0..<Suc (Suc n)]) =
          cc_step (cc_loop cc_init (map S3_probe [0..<Suc n])) (S3_probe (Suc n))"
  proof -
    have "map S3_probe [0..<Suc (Suc n)] = map S3_probe [0..<Suc n] @ [S3_probe (Suc n)]"
      by simp
    then show ?thesis
      by (simp only: cc_loop_append cc_loop.simps)
  qed
  also have "\<dots> =
     \<lparr>current = \<lparr>send_mean_ms = 5 * of_nat (Suc n), recv_mean_ms = 6 * of_nat (Suc n),
                  mean_size = 1200 * Suc n, count = int (Suc n),
                  num_above_min_delta = int (Suc n)\<rparr>,
      prev_send_time = 5 * int (Suc n), prev_recv_time = 6 * int (Suc n),
      last_probe_cluster_id = 0, clusters = []\<rparr>"
    unfolding Suc.IH [OF n]
    by (simp add: cc_step_def S3_probe_def Let_def accumulate_def to_int32_small
        to_float_simps a b)
  finally show ?case .
qed

lemma S3_ComputeClusters:
  assumes "n \<le> 1000"
  shows "ComputeClusters (map S3_probe [0..<Suc n]) =
     (if 4 \<le> n then [\<lparr>send_mean_ms = 5, recv_mean_ms = 6, mean_size = 1200,
                        count = int n, num_above_min_delta = int n\<rparr>] else [])"
proof -
  have c: "to_float (of_int (int n)) = of_int (int n)"
    using assms by (intro to_float_of_int) simp
  show ?thesis
    unfolding ComputeClusters_def S3_cc_loop [OF assms]
    using c by (simp add: cc_finish_def AddCluster_def kMinClusterSize_def to_float_simps)
qed

lemma S3_bitrate:
  "probe_bitrate_bps \<lparr>send_mean_ms = 5, recv_mean_ms = 6, mean_size = 1200, count = 4,
     num_above_min_delta = 4\<rparr> = 1600000"
  by (simp add: probe_bitrate_bps_def GetSendBitrateBps_def GetRecvBitrateBps_def
      float_to_int_def trunc_def to_float_simps)

lemma S3_best:
  "FindBestProbe [\<lparr>send_mean_ms = 5, recv_mean_ms = 6, mean_size = 1200, count = 4,
      num_above_min_delta = 4\<rparr>] =
   Some \<lparr>send_mean_ms = 5, recv_mean_ms = 6, mean_size = 1200, count = 4,
      num_above_min_delta = 4\<rparr>"
  by (simp add: FindBestProbe_def zero_mean_def probe_ok_def half_def S3_bitrate
      to_float_simps)

text \<open>
  Whatever the collaborators do, the first 16 packets of S3 are all stored as probes: the
  packets arrive within the initial probing interval, no cluster forms before the fifth,
  and a single cluster never clears the list.
\<close>

lemma S3_run:
  "n \<le> 16 \<Longrightarrow>
   probes (S3_state ops ia est det rs rc n) = map S3_probe [0..<n] \<and>
   first_packet_time_ms (S3_state ops ia est det rs rc n) = (if n = 0 then - 1 else 0) \<and>
   ssrcs (S3_state ops ia est det rs rc n) = (if n = 0 then [] else [(1, 6 * int (n - 1))])"
proof (induction n)
  case 0
  show ?case by (simp add: S3_state_def DelayBasedBwe_new_def)
next
  case (Suc n)
  let ?st = "S3_state ops ia est det rs rc n"
  let ?e = "enter_stage ops ?st (6 * int n) 1200 1"
  from Suc have n: "n < 16" and IH: "probes ?st = map S3_probe [0..<n]"
    "first_packet_time_ms ?st = (if n = 0 then - 1 else 0)"
    "ssrcs ?st = (if n = 0 then [] else [(1, 6 * int (n - 1))])"
    by simp_all
  have t: "send_time_of (upshift (send_time_24bits (S3_packet n))) = 5 * int n"
    using n by (rule S3_send_time)
  have gate: "is_probe ops ?e (6 * int n) 1200 0"
    using n by (simp add: is_probe_def enter_stage_frame IH kNotAProbe_def
        kMinProbePacketSize_def kInitialProbingIntervalMs_def)
  have new: "probes ?e @ [\<lparr>send_time_ms = 5 * int n, recv_time_ms = 6 * int n,
                            payload_size = 1200, cluster_id = 0\<rparr>]
      = map S3_probe [0..<Suc n]"
    by (simp add: enter_stage_frame IH S3_probe_def)
  have cc: "ComputeClusters (map S3_probe [0..<Suc n]) =
     (if 4 \<le> n then [\<lparr>send_mean_ms = 5, recv_mean_ms = 6, mean_size = 1200,
                        count = int n, num_above_min_delta = int n\<rparr>] else [])"
    using n by (intro S3_ComputeClusters) simp
  have "probes (fst (probe_stage ops ?e (6 * int n) (5 * int n) 1200 0)) =
          map S3_probe [0..<Suc n]"
    unfolding new [symmetric]
    apply (rule probe_stage_probes_kept [OF gate])
    unfolding new cc
    using n by (simp add: enter_stage_frame IH kMaxProbePackets_def kExpectedNumberOfProbes_def)
  then have 1: "probes (S3_state ops ia est det rs rc (Suc n)) = map S3_probe [0..<Suc n]"
    by (simp only: S3_state_Suc IncomingPacketInfo_probes t)
  have 2: "first_packet_time_ms (S3_state ops ia est det rs rc (Suc n)) = 0"
    by (simp add: S3_state_Suc IncomingPacketInfo_first IH)
  have 3: "ssrcs (S3_state ops ia est det rs rc (Suc n)) = [(1, 6 * int n)]"
    by (simp add: S3_state_Suc IncomingPacketInfo_ssrcs IH kStreamTimeOutMs_def)
  from 1 2 3 show ?case by simp
qed

subsection \<open>Scenario S3 with a rate controller that holds its estimate\<close>

lemma hold_IncomingPacketInfo_rate:
  "remote_rate (fst (IncomingPacketInfo hold_ops st now s24 sz src cid)) =
   remote_rate (fst (probe_stage hold_ops (enter_stage hold_ops st now sz src) now
                  (send_time_of (upshift s24)) sz cid))"
proof -
  have u: "remote_rate (fst (update_stage hold_ops x now b)) = remote_rate x" for x b
    by (simp add: update_stage_def hold_ops_def Let_def)
  show ?thesis
    by (simp add: IncomingPacketInfo_def Let_def case_prod_beta u due_stage_frame
        delay_stage_frame)
qed

lemma hold_S3_no_estimate:
  "n \<le> 4 \<Longrightarrow> remote_rate (S3_state hold_ops () () () () None n) = None"
proof (induction n)
  case 0
  show ?case by (simp add: S3_state_def DelayBasedBwe_new_def)
next
  case (Suc n)
  let ?st = "S3_state hold_ops () () () () None n"
  let ?e = "enter_stage hold_ops ?st (6 * int n) 1200 1"
  from Suc have n: "n < 4" and IH: "remote_rate ?st = None"
    by simp_all
  have p: "probes ?st = map S3_probe [0..<n]"
    using S3_run [of n hold_ops "()" "()" "()" "()" None] n by simp
  have t: "send_time_of (upshift (send_time_24bits (S3_packet n))) = 5 * int n"
    using n by (simp add: S3_send_time)
  have new: "probes ?e @ [\<lparr>send_time_ms = 5 * int n, recv_time_ms = 6 * int n,
                            payload_size = 1200, cluster_id = 0\<rparr>]
      = map S3_probe [0..<Suc n]"
    by (simp add: enter_stage_frame p S3_probe_def)
  have "ComputeClusters (probes ?e @ [\<lparr>send_time_ms = 5 * int n, recv_time_ms = 6 * int n,
                            payload_size = 1200, cluster_id = 0\<rparr>]) = []"
    unfolding new using S3_ComputeClusters [of n] n by simp
  then have "remote_rate (fst (probe_stage hold_ops ?e (6 * int n) (5 * int n) 1200 0)) =
               remote_rate ?e"
    by (rule probe_stage_rate_no_cluster)
  then show ?case
    by (simp add: S3_state_Suc hold_IncomingPacketInfo_rate t enter_stage_frame IH)
qed


lemma hold_IncomingPacketInfo_call:
  assumes "remote_rate (fst (probe_stage hold_ops (enter_stage hold_ops st now sz src) now
                  (send_time_of (upshift s24)) sz cid)) = None"
  shows "snd (IncomingPacketInfo hold_ops st now s24 sz src cid) = None"
proof -
  have u: "snd (update_stage hold_ops x now b) = None" if "remote_rate x = None" for x b
    using that by (simp add: update_stage_def hold_ops_def Let_def)
  show ?thesis
    by (simp add: IncomingPacketInfo_def Let_def case_prod_beta)
      (rule u, simp add: due_stage_frame delay_stage_frame assms)
qed

lemma hold_S3_no_call:
  "n \<le> 4 \<Longrightarrow> S3_calls hold_ops () () () () None n = replicate n None"
proof (induction n)
  case 0
  show ?case by (simp add: S3_calls_def)
next
  case (Suc n)
  let ?st = "S3_state hold_ops () () () () None n"
  from Suc have n: "n < 4" and IH: "S3_calls hold_ops () () () () None n = replicate n None"
    by simp_all
  have "remote_rate (S3_state hold_ops () () () () None (Suc n)) = None"
    using hold_S3_no_estimate [of "Suc n"] n by simp
  then have "remote_rate (fst (probe_stage hold_ops (enter_stage hold_ops ?st (6 * int n) 1200 1)
      (6 * int n) (send_time_of (upshift (send_time_24bits (S3_packet n)))) 1200 0)) = None"
    by (simp add: S3_state_Suc hold_IncomingPacketInfo_rate)
  then have "snd (IncomingPacketInfo hold_ops ?st (6 * int n) (send_time_24bits (S3_packet n))
      1200 1 0) = None"
    by (rule hold_IncomingPacketInfo_call)
  then show ?case
    by (simp add: S3_calls_Suc IH replicate_append_same)
qed

subsection \<open>The cluster of the dispersed probes\<close>

lemma dispersed_clusters: "ComputeClusters dispersed_probes = [dispersed_cluster]"
  by (simp add: dispersed_probes_def dispersed_cluster_def ComputeClusters_def cc_finish_def
      cc_init_def cc_step_def Cluster_new_def accumulate_def AddCluster_def to_int32_def
      kMinClusterSize_def Let_def to_float_simps)

lemma dispersed_cluster_ok: "probe_ok dispersed_cluster" "\<not> zero_mean dispersed_cluster"
  by (simp_all add: probe_ok_def zero_mean_def dispersed_cluster_def half_def to_float_simps)

text \<open>
  The quotient \<open>1608000/1700000 = 402/425\<close> lies between 1/2 and 1 and rounds to
  \<open>15869273/2^24\<close>.
\<close>

lemma dispersed_quotient: "to_float (402 / 425) = 15869273 / 2 ^ 24"
  by (subst to_float_eval [of "- 1"]) (simp_all add: round_to_even_def power_int_minus)

lemma dispersed_bitrate: "probe_bitrate_bps dispersed_cluster = 0"
  by (simp add: probe_bitrate_bps_def GetSendBitrateBps_def GetRecvBitrateBps_def
      dispersed_cluster_def to_float_simps dispersed_quotient float_to_int_def trunc_def)

lemma dispersed_best: "FindBestProbe [dispersed_cluster] = None"
  by (simp add: FindBestProbe_def dispersed_cluster_ok dispersed_bitrate)


section \<open>Scenario S3: the initial probe cluster\<close>

text \<open>
  C1 (as stated): in scenario S3 a cluster with count at least 4 forms after the fourth
  packet is ingested. It does not: the count of a cluster is the number of deltas between
  consecutive probes, so four probes give a count of 3 and ComputeClusters returns no
  cluster; and with a rate controller that has no estimate until it is seeded, the observer
  has not been called.
\<close>

theorem S3_no_cluster_after_fourth_packet:
  "ComputeClusters (probes (S3_state hold_ops () () () () None 4)) = [] \<and>
   S3_calls hold_ops () () () () None 4 = [None, None, None, None]"
proof -
  have "probes (S3_state hold_ops () () () () None 4) = map S3_probe [0..<4]"
    using S3_run [of 4 hold_ops "()" "()" "()" "()" None] by simp
  moreover have "ComputeClusters (map S3_probe [0..<4]) = []"
    using S3_ComputeClusters [of 3] by simp
  moreover have "S3_calls hold_ops () () () () None 4 = [None, None, None, None]"
    using hold_S3_no_call [of 4] by (simp add: eval_nat_numeral)
  ultimately show ?thesis by simp
qed

lemma S3_fifth_packet:
  assumes improving:
    "IsBitrateImproving ops (remote_rate (S3_state ops ia est det rs rc 4)) 1600000"
  shows "S3_calls ops ia est det rs rc 5 ! 4 =
      (let d = delay_stage ops (enter_stage ops (S3_state ops ia est det rs rc 4) 24 1200 1)
                 (upshift (send_time_24bits (S3_packet 4))) 24 1200;
           x = UpdateBandwidthEstimate ops
                 (rate_Update ops
                    (SetEstimate ops (remote_rate (S3_state ops ia est det rs rc 4)) 1600000 24)
                    (State ops (detector d)) (snd (Rate ops (incoming_bitrate d) 24))
                    (estimator d) 24) 24
       in if ValidEstimate ops (fst x) then Some ([1], snd x) else None)"
proof -
  let ?st = "S3_state ops ia est det rs rc 4"
  let ?e = "enter_stage ops ?st 24 1200 1"
  let ?c = "\<lparr>send_mean_ms = 5, recv_mean_ms = 6, mean_size = 1200, count = 4,
             num_above_min_delta = 4\<rparr>"
  let ?p = "\<lparr>send_time_ms = 20, recv_time_ms = 24, payload_size = 1200, cluster_id = 0\<rparr>"
  have p4: "probes ?st = map S3_probe [0..<4]" and f4: "first_packet_time_ms ?st = 0"
    and s4: "ssrcs ?st = [(1, 18)]"
    using S3_run [of 4 ops ia est det rs rc] by simp_all
  have cc5: "ComputeClusters (map S3_probe [0..<5]) = [?c]"
    using S3_ComputeClusters [of 4] by simp
  have u5: "[0..<5] = [0..<4] @ [4::nat]"
    using upt_Suc_append [of 0 4] by simp
  have t: "send_time_of (upshift (send_time_24bits (S3_packet 4))) = 20"
    using S3_send_time [of 4] by simp
  have gate: "is_probe ops ?e 24 1200 0"
    by (simp add: is_probe_def enter_stage_frame f4 kNotAProbe_def kMinProbePacketSize_def
        kInitialProbingIntervalMs_def)
  have new: "probes ?e @ [?p] = map S3_probe [0..<5]"
    by (simp add: enter_stage_frame p4 u5 S3_probe_def)
  have best: "FindBestProbe (ComputeClusters (probes ?e @ [?p])) = Some ?c"
    by (simp only: new cc5 S3_best)
  have improving': "IsBitrateImproving ops (remote_rate ?e) (probe_bitrate_bps ?c)"
    using improving by (simp add: enter_stage_frame S3_bitrate)
  note seed = probe_stage_seeds [OF gate best improving']
  let ?d = "delay_stage ops (fst (probe_stage ops ?e 24 20 1200 0))
              (upshift (send_time_24bits (S3_packet 4))) 24 1200"
  have forced: "snd (probe_stage ops ?e 24 20 1200 0)"
    by (simp add: seed)
  have rr: "remote_rate ?d = SetEstimate ops (remote_rate ?st) 1600000 24"
    by (simp add: delay_stage_frame seed S3_bitrate enter_stage_frame)
  have ss: "ssrcs ?d = [(1, 24)]"
    by (simp add: delay_stage_frame probe_stage_frame enter_stage_ssrcs s4 kStreamTimeOutMs_def)
  have "S3_calls ops ia est det rs rc 5 ! 4 =
      snd (IncomingPacketInfo ops ?st 24 (send_time_24bits (S3_packet 4)) 1200 1 0)"
    using S3_calls_Suc [of ops ia est det rs rc 4]
    by (simp add: nth_append length_S3_calls)
  also have "\<dots> = snd (update_stage ops ?d 24 True)"
    using IncomingPacketInfo_forced [of ops ?st 24 1200 1 "send_time_24bits (S3_packet 4)" 0]
      forced
    by (simp add: t)
  also have "\<dots> =
      (let d = delay_stage ops ?e (upshift (send_time_24bits (S3_packet 4))) 24 1200;
           x = UpdateBandwidthEstimate ops
                 (rate_Update ops (SetEstimate ops (remote_rate ?st) 1600000 24)
                    (State ops (detector d)) (snd (Rate ops (incoming_bitrate d) 24))
                    (estimator d) 24) 24
       in if ValidEstimate ops (fst x) then Some ([1], snd x) else None)"
    by (simp add: update_stage_call Let_def rr ss Keys_def delay_stage_after_probe_stage)
  finally show ?thesis .
qed

text \<open>
  C1 (amended): for the probe sequence of scenario S3 (probe cluster 0, payload 1200 bytes,
  send times 5 ms apart, arrival times 6 ms apart), under any collaborators, no cluster has
  formed after the fourth packet, and after the fifth packet the cluster with count 4, send
  mean 5 ms, receive mean 6 ms and mean size 1200 forms, whose bitrate is
  min(1200*8*1000/5, 1200*8*1000/6) = 1600000 bps. When this bitrate passes the
  bitrate-improving test of the rate controller as it is after the fourth packet (it has no
  valid estimate, or its latest estimate is below 1600000), the fifth packet seeds the rate
  controller with \<open>SetEstimate(1600000, 24)\<close> and forces an update of it, and the observer
  is called on the fifth packet if and only if the updated rate controller has a valid
  estimate, with the SSRC of the stream and the target bitrate that the rate controller
  returns from this update. The other inputs of the update are the state of the detector,
  the incoming rate and the estimator as they are after the delay stage of the fifth packet
  (\<open>d\<close>). (All the numbers of the scenario are integers below \<open>2^24\<close>, on which the
  float arithmetic of the code is exact.)
\<close>

theorem S3_initial_probe_cluster:
  "ComputeClusters (probes (S3_state ops ia est det rs rc 4)) = [] \<and>
   ComputeClusters (probes (S3_state ops ia est det rs rc 5)) =
     [\<lparr>send_mean_ms = 5, recv_mean_ms = 6, mean_size = 1200, count = 4,
       num_above_min_delta = 4\<rparr>] \<and>
   probe_bitrate_bps \<lparr>send_mean_ms = 5, recv_mean_ms = 6, mean_size = 1200, count = 4,
      num_above_min_delta = 4\<rparr> = 1600000 \<and>
   (IsBitrateImproving ops (remote_rate (S3_state ops ia est det rs rc 4)) 1600000 \<longrightarrow>
    S3_calls ops ia est det rs rc 5 ! 4 =
      (let d = delay_stage ops (enter_stage ops (S3_state ops ia est det rs rc 4) 24 1200 1)
                 (upshift (send_time_24bits (S3_packet 4))) 24 1200;
           x = UpdateBandwidthEstimate ops
                 (rate_Update ops
                    (SetEstimate ops (remote_rate (S3_state ops ia est det rs rc 4)) 1600000 24)
                    (State ops (detector d)) (snd (Rate ops (incoming_bitrate d) 24))
                    (estimator d) 24) 24
       in if ValidEstimate ops (fst x) then Some ([1], snd x) else None))"
proof -
  have "probes (S3_state ops ia est det rs rc 4) = map S3_probe [0..<4]"
    using S3_run [of 4 ops ia est det rs rc] by simp
  moreover have "ComputeClusters (map S3_probe [0..<4]) = []"
    using S3_ComputeClusters [of 3] by simp
  ultimately have c4: "ComputeClusters (probes (S3_state ops ia est det rs rc 4)) = []"
    by simp
  have "probes (S3_state ops ia est det rs rc 5) = map S3_probe [0..<5]"
    using S3_run [of 5 ops ia est det rs rc] by simp
  moreover have "ComputeClusters (map S3_probe [0..<5]) =
      [\<lparr>send_mean_ms = 5, recv_mean_ms = 6, mean_size = 1200, count = 4,
        num_above_min_delta = 4\<rparr>]"
    using S3_ComputeClusters [of 4] by simp
  ultimately have c5: "ComputeClusters (probes (S3_state ops ia est det rs rc 5)) =
      [\<lparr>send_mean_ms = 5, recv_mean_ms = 6, mean_size = 1200, count = 4,
        num_above_min_delta = 4\<rparr>]"
    by simp
  from c4 c5 S3_bitrate S3_fifth_packet [of ops ia est det rs rc] show ?thesis
    by (intro conjI impI)
qed

theorem S3_initial_probe_cluster_witness:
  "\<not> ValidEstimate hold_ops (remote_rate (S3_state hold_ops () () () () None 4)) \<and>
   IsBitrateImproving hold_ops (remote_rate (S3_state hold_ops () () () () None 4)) 1600000 \<and>
   ComputeClusters (probes (S3_state hold_ops () () () () None 4)) = [] \<and>
   ComputeClusters (probes (S3_state hold_ops () () () () None 5)) =
     [\<lparr>send_mean_ms = 5, recv_mean_ms = 6, mean_size = 1200, count = 4,
       num_above_min_delta = 4\<rparr>] \<and>
   S3_calls hold_ops () () () () None 5 ! 4 = Some ([1], 1600000)"
proof -
  have r4: "remote_rate (S3_state hold_ops () () () () None 4) = None"
    by (rule hold_S3_no_estimate) simp
  have v: "\<not> ValidEstimate hold_ops (remote_rate (S3_state hold_ops () () () () None 4))"
    unfolding r4 by (simp add: hold_ops_def)
  have i: "IsBitrateImproving hold_ops (remote_rate (S3_state hold_ops () () () () None 4))
      1600000"
    unfolding r4 by (simp add: IsBitrateImproving_def hold_ops_def)
  have x: "UpdateBandwidthEstimate hold_ops
             (rate_Update hold_ops (SetEstimate hold_ops None 1600000 24) bw r e 24) 24 =
           (Some 1600000, 1600000)" for bw r e
    by (simp add: hold_ops_def)
  have y: "ValidEstimate hold_ops (Some 1600000)"
    by (simp add: hold_ops_def)
  from S3_initial_probe_cluster [of hold_ops "()" "()" "()" "()" None] v i
  show ?thesis
    by (simp add: r4 x y Let_def)
qed

section \<open>The size of the probe list\<close>

text \<open>
  C2 (as stated): the stored probe list never holds more than 15 entries. It can: after
  the first 16 packets of scenario S3 all 16 probes are stored, because the list is only
  trimmed while no cluster has formed.
\<close>

theorem probe_list_exceeds_15:
  "length (probes (S3_state hold_ops () () () () None 16)) = 16"
  using S3_run [of 16 hold_ops "()" "()" "()" "()" None] by simp

text \<open>
  C2 (amended): for every sequence of incoming packets from the constructed state, as
  long as no cluster can be computed from the stored probes the list holds fewer than 15
  entries; and whenever ProcessClusters finds 15 or more probes and no cluster, it removes
  the oldest probe and reports no update. (Once a cluster has formed the list is not
  trimmed and may grow beyond 15 entries.)
\<close>

theorem probe_list_bounded_without_cluster:
  "(ComputeClusters (probes (fst (IncomingPackets ops (DelayBasedBwe_new ia est det rs rc) ps)))
      = [] \<longrightarrow>
    length (probes (fst (IncomingPackets ops (DelayBasedBwe_new ia est det rs rc) ps)))
      < kMaxProbePackets) \<and>
   (ComputeClusters (probes st) = [] \<and> kMaxProbePackets \<le> length (probes st) \<longrightarrow>
    ProcessClusters ops st now = (kNoUpdate, st\<lparr>probes := tl (probes st)\<rparr>))"
proof -
  have "probes_ok (DelayBasedBwe_new ia est det rs rc)"
    by (simp add: probes_ok_def DelayBasedBwe_new_def kMaxProbePackets_def)
  then have "probes_ok (fst (IncomingPackets ops (DelayBasedBwe_new ia est det rs rc) ps))"
    by (rule IncomingPackets_ok)
  then show ?thesis
    by (auto simp: probes_ok_def ProcessClusters_def)
qed

lemma alternating_no_cluster: "ComputeClusters alternating_probes = []"
  by (simp add: alternating_probes_def upt_rec ComputeClusters_def cc_finish_def cc_init_def
      cc_step_def Cluster_new_def accumulate_def to_int32_def kMinClusterSize_def Let_def)

theorem probe_list_bounded_without_cluster_witness:
  "ComputeClusters (probes (fst (IncomingPackets hold_ops (DelayBasedBwe_new () () () () None)
      (map S3_packet [0..<3])))) = [] \<and>
   length (probes (fst (IncomingPackets hold_ops (DelayBasedBwe_new () () () () None)
      (map S3_packet [0..<3])))) < kMaxProbePackets \<and>
   ComputeClusters (probes ((DelayBasedBwe_new () () () () None)\<lparr>probes := alternating_probes\<rparr>))
     = [] \<and>
   kMaxProbePackets \<le>
     length (probes ((DelayBasedBwe_new () () () () None)\<lparr>probes := alternating_probes\<rparr>)) \<and>
   ProcessClusters hold_ops ((DelayBasedBwe_new () () () () None)\<lparr>probes := alternating_probes\<rparr>) 84
     = (kNoUpdate, (DelayBasedBwe_new () () () () None)\<lparr>probes := tl alternating_probes\<rparr>)"
proof -
  have "probes (S3_state hold_ops () () () () None 3) = map S3_probe [0..<3]"
    using S3_run [of 3 hold_ops "()" "()" "()" "()" None] by simp
  moreover have "ComputeClusters (map S3_probe [0..<3]) = []"
    using S3_ComputeClusters [of 2] by simp
  ultimately have a: "ComputeClusters (probes (fst (IncomingPackets hold_ops
      (DelayBasedBwe_new () () () () None) (map S3_packet [0..<3])))) = []"
    by (simp add: S3_state_def)
  have b: "ComputeClusters (probes ((DelayBasedBwe_new () () () () None)
      \<lparr>probes := alternating_probes\<rparr>)) = []"
    by (simp add: alternating_no_cluster)
  have c: "kMaxProbePackets \<le>
     length (probes ((DelayBasedBwe_new () () () () None)\<lparr>probes := alternating_probes\<rparr>))"
    by (simp add: alternating_probes_def kMaxProbePackets_def)
  from probe_list_bounded_without_cluster
    [of hold_ops "()" "()" "()" "()" None "map S3_packet [0..<3]"
        "(DelayBasedBwe_new () () () () None)\<lparr>probes := alternating_probes\<rparr>" 84]
    a b c
  show ?thesis by simp
qed


section \<open>Best-cluster selection\<close>

lemma candidates_simps:
  "candidates [] = []"
  "zero_mean c \<Longrightarrow> candidates (c # cs) = candidates cs"
  "\<not> zero_mean c \<Longrightarrow> probe_ok c \<Longrightarrow> candidates (c # cs) = c # candidates cs"
  "\<not> zero_mean c \<Longrightarrow> \<not> probe_ok c \<Longrightarrow> candidates (c # cs) = []"
  by (simp_all add: candidates_def scanned_def)

lemma fbp_loop_cases:
  "(fbp_loop hi best cs = best \<and> (\<forall>c\<in>set (candidates cs). probe_bitrate_bps c \<le> hi)) \<or>
   (\<exists>pre b post. fbp_loop hi best cs = Some b \<and> candidates cs = pre @ b # post \<and>
      hi < probe_bitrate_bps b \<and>
      (\<forall>c\<in>set pre. probe_bitrate_bps c < probe_bitrate_bps b) \<and>
      (\<forall>c\<in>set post. probe_bitrate_bps c \<le> probe_bitrate_bps b))"
proof (induction cs arbitrary: hi best)
  case Nil
  show ?case by (simp add: candidates_simps)
next
  case (Cons c cs)
  show ?case
  proof (cases "zero_mean c")
    case True
    then show ?thesis
      using Cons.IH [of hi best] by (simp add: candidates_simps)
  next
    case nz: False
    show ?thesis
    proof (cases "probe_ok c")
      case False
      with nz show ?thesis by (simp add: candidates_simps)
    next
      case ok: True
      show ?thesis
      proof (cases "hi < probe_bitrate_bps c")
        case False
        from Cons.IH [of hi best] show ?thesis
        proof (elim disjE exE conjE)
          assume "fbp_loop hi best cs = best" "\<forall>x\<in>set (candidates cs). probe_bitrate_bps x \<le> hi"
          with nz ok False show ?thesis by (simp add: candidates_simps)
        next
          fix pre b post
          assume *: "fbp_loop hi best cs = Some b" "candidates cs = pre @ b # post"
            "hi < probe_bitrate_bps b" "\<forall>x\<in>set pre. probe_bitrate_bps x < probe_bitrate_bps b"
            "\<forall>x\<in>set post. probe_bitrate_bps x \<le> probe_bitrate_bps b"
          have "candidates (c # cs) = (c # pre) @ b # post"
            using nz ok * by (simp add: candidates_simps)
          moreover have "\<forall>x\<in>set (c # pre). probe_bitrate_bps x < probe_bitrate_bps b"
            using * False by auto
          moreover have "fbp_loop hi best (c # cs) = Some b"
            using nz ok False * by simp
          ultimately show ?thesis
            using * by (intro disjI2 exI [of _ "c # pre"] exI [of _ b] exI [of _ post]) simp
        qed
      next
        case True
        from Cons.IH [of "probe_bitrate_bps c" "Some c"] show ?thesis
        proof (elim disjE exE conjE)
          assume *: "fbp_loop (probe_bitrate_bps c) (Some c) cs = Some c"
            "\<forall>x\<in>set (candidates cs). probe_bitrate_bps x \<le> probe_bitrate_bps c"
          have "candidates (c # cs) = [] @ c # candidates cs"
            using nz ok by (simp add: candidates_simps)
          moreover have "fbp_loop hi best (c # cs) = Some c"
            using nz ok True * by simp
          ultimately show ?thesis
            using * True
            by (intro disjI2 exI [of _ "[]"] exI [of _ c] exI [of _ "candidates cs"]) simp
        next
          fix pre b post
          assume *: "fbp_loop (probe_bitrate_bps c) (Some c) cs = Some b" "candidates cs = pre @ b # post"
            "probe_bitrate_bps c < probe_bitrate_bps b"
            "\<forall>x\<in>set pre. probe_bitrate_bps x < probe_bitrate_bps b"
            "\<forall>x\<in>set post. probe_bitrate_bps x \<le> probe_bitrate_bps b"
          have "candidates (c # cs) = (c # pre) @ b # post"
            using nz ok * by (simp add: candidates_simps)
          moreover have "\<forall>x\<in>set (c # pre). probe_bitrate_bps x < probe_bitrate_bps b"
            using * by auto
          moreover have "fbp_loop hi best (c # cs) = Some b"
            using nz ok True * by simp
          moreover have "hi < probe_bitrate_bps b"
            using True * by simp
          ultimately show ?thesis
            using * by (intro disjI2 exI [of _ "c # pre"] exI [of _ b] exI [of _ post]) simp
        qed
      qed
    qed
  qed
qed

lemma fbp_loop_scanned: "fbp_loop hi best (scanned cs) = fbp_loop hi best cs"
  by (induction cs arbitrary: hi best) (simp_all add: scanned_def)

lemma candidates_ok:
  assumes "c \<in> set (candidates cs)"
  shows "\<not> zero_mean c \<and> probe_ok c \<and> c \<in> set cs"
proof -
  from assms have nz: "\<not> zero_mean c" and "c \<in> set (takeWhile (\<lambda>c. zero_mean c \<or> probe_ok c) cs)"
    by (simp_all add: candidates_def scanned_def)
  then have "(zero_mean c \<or> probe_ok c) \<and> c \<in> set cs"
    using set_takeWhileD [of c "\<lambda>c. zero_mean c \<or> probe_ok c" cs] by blast
  with nz show ?thesis by blast
qed

lemma FindBestProbe_None:
  assumes "FindBestProbe cs = None"
  shows "\<forall>c\<in>set (candidates cs). probe_bitrate_bps c \<le> 0"
  using fbp_loop_cases [of 0 None cs] assms unfolding FindBestProbe_def by auto

lemma FindBestProbe_Some_first_max:
  assumes "FindBestProbe cs = Some b"
  shows "0 < probe_bitrate_bps b \<and>
        (\<exists>pre post. candidates cs = pre @ b # post \<and>
           (\<forall>c\<in>set pre. probe_bitrate_bps c < probe_bitrate_bps b) \<and>
           (\<forall>c\<in>set post. probe_bitrate_bps c \<le> probe_bitrate_bps b))"
proof -
  from fbp_loop_cases [of 0 None cs] assms
  obtain pre b' post where *: "fbp_loop 0 None cs = Some b'" "candidates cs = pre @ b' # post"
      "0 < probe_bitrate_bps b'" "\<forall>c\<in>set pre. probe_bitrate_bps c < probe_bitrate_bps b'"
      "\<forall>c\<in>set post. probe_bitrate_bps c \<le> probe_bitrate_bps b'"
    unfolding FindBestProbe_def by auto
  with assms have "b' = b" by (simp add: FindBestProbe_def)
  with * show ?thesis by blast
qed



text \<open>
  C3 (as stated): a cluster qualifies iff \<open>num_above_min_delta > count/2\<close> and the two
  bounds on the means hold; the scan stops at the first cluster that does not qualify, so
  that no cluster after it is considered; and the qualifying cluster with the highest
  bitrate is returned. Two inputs show what the code does otherwise. The scan does not stop
  at a cluster that does not qualify when that cluster has a zero mean: the clusters
  computed from \<open>reordered_probes\<close> are a first one that does not qualify (2 of 4 deltas
  above the minimum, send mean 0) and a second one that does; FindBestProbe skips the first
  and returns the second, where the selection as claimed returns nothing. And a qualifying
  cluster is not returned when its bitrate is not positive: the one cluster computed from
  \<open>dispersed_probes\<close> qualifies and has bitrate 0; FindBestProbe returns nothing, where
  the selection as claimed returns that cluster.
\<close>

theorem FindBestProbe_not_as_claimed:
  "ComputeClusters reordered_probes = [reordered_cluster, steady_cluster] \<and>
   \<not> probe_ok reordered_cluster \<and>
   FindBestProbe (ComputeClusters reordered_probes) = Some steady_cluster \<and>
   claimed_FindBestProbe (ComputeClusters reordered_probes) = None \<and>
   ComputeClusters dispersed_probes = [dispersed_cluster] \<and>
   probe_ok dispersed_cluster \<and>
   probe_bitrate_bps dispersed_cluster = 0 \<and>
   FindBestProbe (ComputeClusters dispersed_probes) = None \<and>
   claimed_FindBestProbe (ComputeClusters dispersed_probes) = Some dispersed_cluster"
proof -
  have q: "to_float (3 / 4) = 3 / 4"
    by (subst to_float_eval [of "- 1"]) (simp_all add: round_to_even_def power_int_minus)
  have cc: "ComputeClusters reordered_probes = [reordered_cluster, steady_cluster]"
    by (simp add: reordered_probes_def reordered_cluster_def steady_cluster_def
        ComputeClusters_def cc_finish_def cc_init_def cc_step_def Cluster_new_def
        accumulate_def AddCluster_def to_int32_def kMinClusterSize_def Let_def
        to_float_simps q)
  have no: "\<not> probe_ok reordered_cluster"
    by (simp add: probe_ok_def reordered_cluster_def half_def)
  have z: "zero_mean reordered_cluster"
    by (simp add: zero_mean_def reordered_cluster_def)
  have b: "probe_bitrate_bps steady_cluster = 1600000"
    by (simp add: steady_cluster_def probe_bitrate_bps_def GetSendBitrateBps_def
        GetRecvBitrateBps_def float_to_int_def trunc_def to_float_simps)
  have ok: "probe_ok steady_cluster" "\<not> zero_mean steady_cluster"
    by (simp_all add: probe_ok_def zero_mean_def steady_cluster_def half_def to_float_simps)
  have 1: "FindBestProbe [reordered_cluster, steady_cluster] = Some steady_cluster"
    by (simp add: FindBestProbe_def z ok b)
  have 2: "claimed_FindBestProbe [reordered_cluster, steady_cluster] = None"
    by (simp add: claimed_FindBestProbe_def no)
  have 3: "claimed_FindBestProbe [dispersed_cluster] = Some dispersed_cluster"
    by (simp add: claimed_FindBestProbe_def dispersed_cluster_ok)
  from cc no 1 2 3 dispersed_clusters dispersed_cluster_ok(1) dispersed_bitrate dispersed_best
  show ?thesis by simp
qed

text \<open>
  C3 (amended): for every list of computed clusters, best-cluster selection scans the
  clusters in order and skips, without stopping, every cluster whose send mean or receive
  mean is zero; any other cluster qualifies iff \<open>num_above_min_delta > count/2\<close> and
  \<open>recv_mean - send_mean \<le> 2.0\<close> and \<open>send_mean - recv_mean \<le> 5.0\<close>, the means and
  their differences being the single-precision numbers that the code computes
  (\<open>probe_ok\<close>); the scan stops at the first cluster with non-zero means that does not
  qualify, so that no cluster after it is considered (\<open>scanned\<close>). The result is the first
  of the qualifying clusters scanned (\<open>candidates\<close>) that has the highest
  \<open>min(send_bps, recv_bps)\<close>, provided this bitrate is positive; when no qualifying cluster
  scanned has a positive bitrate there is no result.
\<close>

theorem FindBestProbe_selects:
  "FindBestProbe cs = FindBestProbe (scanned cs) \<and>
   (\<forall>c\<in>set (candidates cs). \<not> zero_mean c \<and> probe_ok c) \<and>
   (case FindBestProbe cs of
      None \<Rightarrow> \<forall>c\<in>set (candidates cs). probe_bitrate_bps c \<le> 0
    | Some b \<Rightarrow>
        0 < probe_bitrate_bps b \<and>
        (\<exists>pre post. candidates cs = pre @ b # post \<and>
           (\<forall>c\<in>set pre. probe_bitrate_bps c < probe_bitrate_bps b) \<and>
           (\<forall>c\<in>set post. probe_bitrate_bps c \<le> probe_bitrate_bps b)))"
proof (intro conjI)
  show "FindBestProbe cs = FindBestProbe (scanned cs)"
    by (simp add: FindBestProbe_def fbp_loop_scanned)
  show "\<forall>c\<in>set (candidates cs). \<not> zero_mean c \<and> probe_ok c"
    using candidates_ok by blast
  show "case FindBestProbe cs of
      None \<Rightarrow> \<forall>c\<in>set (candidates cs). probe_bitrate_bps c \<le> 0
    | Some b \<Rightarrow>
        0 < probe_bitrate_bps b \<and>
        (\<exists>pre post. candidates cs = pre @ b # post \<and>
           (\<forall>c\<in>set pre. probe_bitrate_bps c < probe_bitrate_bps b) \<and>
           (\<forall>c\<in>set post. probe_bitrate_bps c \<le> probe_bitrate_bps b))"
  proof (cases "FindBestProbe cs")
    case None
    then show ?thesis using FindBestProbe_None by simp
  next
    case (Some b)
    then show ?thesis using FindBestProbe_Some_first_max [OF Some] by simp
  qed
qed


theorem FindBestProbe_selects_witness:
  "FindBestProbe [reordered_cluster, steady_cluster] =
     FindBestProbe (scanned [reordered_cluster, steady_cluster]) \<and>
   candidates [reordered_cluster, steady_cluster] = [steady_cluster] \<and>
   \<not> zero_mean steady_cluster \<and> probe_ok steady_cluster \<and>
   FindBestProbe [reordered_cluster, steady_cluster] = Some steady_cluster \<and>
   0 < probe_bitrate_bps steady_cluster"
proof -
  have z: "zero_mean reordered_cluster"
    by (simp add: zero_mean_def reordered_cluster_def)
  have ok: "probe_ok steady_cluster" "\<not> zero_mean steady_cluster"
    by (simp_all add: probe_ok_def zero_mean_def steady_cluster_def half_def to_float_simps)
  have c: "candidates [reordered_cluster, steady_cluster] = [steady_cluster]"
    by (simp add: candidates_simps z ok)
  have b: "probe_bitrate_bps steady_cluster = 1600000"
    by (simp add: steady_cluster_def probe_bitrate_bps_def GetSendBitrateBps_def
        GetRecvBitrateBps_def float_to_int_def trunc_def to_float_simps)
  have f: "FindBestProbe [reordered_cluster, steady_cluster] = Some steady_cluster"
    by (simp add: FindBestProbe_def z ok b)
  from FindBestProbe_selects [of "[reordered_cluster, steady_cluster]"] c f
  show ?thesis by simp
qed


section \<open>Deltas across a cluster boundary\<close>

lemma cc_step_same_cluster:
  assumes "0 \<le> prev_send_time s" and "cluster_id q = last_probe_cluster_id s"
  shows "cc_step s q =
     s\<lparr>current := accumulate
          (if 1 \<le> to_int32 (send_time_ms q - prev_send_time s) \<and>
              1 \<le> to_int32 (recv_time_ms q - prev_recv_time s)
           then (current s)\<lparr>num_above_min_delta := num_above_min_delta (current s) + 1\<rparr>
           else current s)
          (to_int32 (send_time_ms q - prev_send_time s))
          (to_int32 (recv_time_ms q - prev_recv_time s)) (payload_size q),
       prev_send_time := send_time_ms q, prev_recv_time := recv_time_ms q\<rparr>"
  using assms by (simp add: cc_step_def Let_def)

lemma cc_step_boundary:
  assumes "0 \<le> prev_send_time s" and "last_probe_cluster_id s \<noteq> - 1"
    and "cluster_id p \<noteq> last_probe_cluster_id s"
  shows "current (cc_step s p) =
           accumulate Cluster_new (to_int32 (send_time_ms p - prev_send_time s))
             (to_int32 (recv_time_ms p - prev_recv_time s)) (payload_size p)"
    and "prev_send_time (cc_step s p) = send_time_ms p"
    and "prev_recv_time (cc_step s p) = recv_time_ms p"
    and "last_probe_cluster_id (cc_step s p) = cluster_id p"
  using assms by (simp_all add: cc_step_def Let_def)

lemma cc_loop_same_cluster:
  assumes "0 \<le> prev_send_time s"
    and "\<forall>q\<in>set bs. 0 \<le> send_time_ms q \<and> cluster_id q = last_probe_cluster_id s"
  shows "count (current (cc_loop s bs)) = count (current s) + int (length bs) \<and>
         send_mean_ms (current (cc_loop s bs)) =
           float_sum (send_mean_ms (current s)) (deltas (prev_send_time s) (map send_time_ms bs)) \<and>
         recv_mean_ms (current (cc_loop s bs)) =
           float_sum (recv_mean_ms (current s)) (deltas (prev_recv_time s) (map recv_time_ms bs)) \<and>
         mean_size (current (cc_loop s bs)) =
           mean_size (current s) + sum_list (map payload_size bs) \<and>
         clusters (cc_loop s bs) = clusters s"
  using assms
proof (induction bs arbitrary: s)
  case Nil
  show ?case by simp
next
  case (Cons q bs)
  from Cons.prems have q: "0 \<le> send_time_ms q" "cluster_id q = last_probe_cluster_id s"
    by simp_all
  note step = cc_step_same_cluster [OF Cons.prems(1) q(2)]
  have 1: "0 \<le> prev_send_time (cc_step s q)"
    using q by (simp add: step)
  have 2: "\<forall>x\<in>set bs. 0 \<le> send_time_ms x \<and> cluster_id x = last_probe_cluster_id (cc_step s q)"
    using Cons.prems(2) by (simp add: step)
  from Cons.IH [OF 1 2] show ?case
    by (simp add: step accumulate_def)
qed

lemma float_sum_small:
  "small_sums s ds \<Longrightarrow> float_sum (of_int s) ds = of_int (s + sum_list ds)"
proof (induction ds arbitrary: s)
  case Nil
  show ?case by simp
next
  case (Cons d ds)
  from Cons.prems have d: "\<bar>d\<bar> \<le> 2 ^ 24" and sd: "\<bar>s + d\<bar> \<le> 2 ^ 24"
    and rest: "small_sums (s + d) ds"
    by simp_all
  have "to_float (of_int s + to_float (of_int d)) = to_float (of_int (s + d))"
    by (simp add: to_float_of_int [OF d])
  also have "\<dots> = of_int (s + d)"
    by (rule to_float_of_int [OF sd])
  finally show ?case
    using Cons.IH [OF rest] by (simp add: add.assoc)
qed

lemma cc_loop_last:
  assumes "xs \<noteq> []" and "\<forall>q\<in>set xs. 0 \<le> send_time_ms q"
  shows "prev_send_time (cc_loop cc_init xs) = send_time_ms (last xs) \<and>
         prev_recv_time (cc_loop cc_init xs) = recv_time_ms (last xs) \<and>
         last_probe_cluster_id (cc_loop cc_init xs) = cluster_id (last xs)"
  using assms
proof (induction xs rule: rev_induct)
  case Nil
  then show ?case by simp
next
  case (snoc x xs)
  show ?case
  proof (cases "xs = []")
    case True
    then show ?thesis
      by (simp add: cc_step_def cc_init_def Let_def)
  next
    case False
    with snoc have "prev_send_time (cc_loop cc_init xs) = send_time_ms (last xs)"
      by simp
    moreover from False snoc.prems have "0 \<le> send_time_ms (last xs)"
      by simp
    ultimately show ?thesis
      by (simp add: cc_loop_append cc_step_def Let_def)
  qed
qed

lemma boundary_block:
  assumes "a \<noteq> []"
    and "\<forall>q\<in>set (a @ p # bs). 0 \<le> send_time_ms q"
    and "cluster_id (last a) \<noteq> - 1"
    and "cluster_id p \<noteq> cluster_id (last a)"
    and "\<forall>q\<in>set bs. cluster_id q = cluster_id p"
  shows "count (current (cc_loop cc_init (a @ p # bs))) = 1 + int (length bs)"
    and "send_mean_ms (current (cc_loop cc_init (a @ p # bs))) =
           float_sum 0 (deltas (send_time_ms (last a)) (map send_time_ms (p # bs)))"
    and "recv_mean_ms (current (cc_loop cc_init (a @ p # bs))) =
           float_sum 0 (deltas (recv_time_ms (last a)) (map recv_time_ms (p # bs)))"
    and "mean_size (current (cc_loop cc_init (a @ p # bs))) =
           sum_list (map payload_size (p # bs))"
    and "kMinClusterSize \<le> 1 + int (length bs) \<Longrightarrow>
           ComputeClusters (a @ p # bs) =
             AddCluster (clusters (cc_loop cc_init (a @ p # bs)))
               (current (cc_loop cc_init (a @ p # bs)))"
proof -
  let ?s0 = "cc_loop cc_init a"
  let ?s1 = "cc_step ?s0 p"
  let ?s2 = "cc_loop ?s1 bs"
  have l: "prev_send_time ?s0 = send_time_ms (last a)" "prev_recv_time ?s0 = recv_time_ms (last a)"
    "last_probe_cluster_id ?s0 = cluster_id (last a)"
    using cc_loop_last [of a] assms(1,2) by simp_all
  have nn: "0 \<le> prev_send_time ?s0"
    using assms(1,2) l by simp
  note b = cc_step_boundary [of ?s0 p, unfolded l, OF nn [unfolded l] assms(3) assms(4)]
  have 1: "0 \<le> prev_send_time ?s1"
    using assms(2) by (simp add: b)
  have 2: "\<forall>q\<in>set bs. 0 \<le> send_time_ms q \<and> cluster_id q = last_probe_cluster_id ?s1"
    using assms(2,5) by (simp add: b)
  have s2: "cc_loop cc_init (a @ p # bs) = ?s2"
    by (simp add: cc_loop_append)
  from cc_loop_same_cluster [OF 1 2]
  have cur: "count (current ?s2) = 1 + int (length bs)"
    "send_mean_ms (current ?s2) =
       float_sum 0 (deltas (send_time_ms (last a)) (map send_time_ms (p # bs)))"
    "recv_mean_ms (current ?s2) =
       float_sum 0 (deltas (recv_time_ms (last a)) (map recv_time_ms (p # bs)))"
    "mean_size (current ?s2) = sum_list (map payload_size (p # bs))"
    by (simp_all add: b accumulate_def Cluster_new_def)
  from cur show "count (current (cc_loop cc_init (a @ p # bs))) = 1 + int (length bs)"
    and "send_mean_ms (current (cc_loop cc_init (a @ p # bs))) =
           float_sum 0 (deltas (send_time_ms (last a)) (map send_time_ms (p # bs)))"
    and "recv_mean_ms (current (cc_loop cc_init (a @ p # bs))) =
           float_sum 0 (deltas (recv_time_ms (last a)) (map recv_time_ms (p # bs)))"
    and "mean_size (current (cc_loop cc_init (a @ p # bs))) =
           sum_list (map payload_size (p # bs))"
    by (simp_all only: s2)
  show "kMinClusterSize \<le> 1 + int (length bs) \<Longrightarrow>
           ComputeClusters (a @ p # bs) =
             AddCluster (clusters (cc_loop cc_init (a @ p # bs)))
               (current (cc_loop cc_init (a @ p # bs)))"
    by (simp add: ComputeClusters_def s2 cc_finish_def cur)
qed

text \<open>
  C9: in cluster computation, when the cluster id changes between two consecutive probes,
  the delta between the last probe of the old cluster and the first probe of the new one
  (its send delta, its receive delta and the new probe's payload size) is accumulated into
  the new cluster rather than discarded. For every list \<open>a @ p # bs\<close> of stored probes in
  which \<open>p\<close> opens a new cluster and \<open>bs\<close> continues it, the cluster under construction
  after the loop has count \<open>1 + length bs\<close>, one for each probe of the new cluster
  including the first; its send and receive sums are the single-precision sums
  (\<open>float_sum\<close>) of the deltas that start from the times of the last probe of \<open>a\<close>, which
  are the exact sums of these deltas when the deltas and their partial sums do not exceed
  \<open>2^24\<close>; its size sum includes the payload of \<open>p\<close>. When the count reaches the minimum
  cluster size, this is the last cluster that ComputeClusters returns, with each sum divided
  by the count in single precision. (Every probe list of the coordinator consists of stored
  probes: lemma \<open>stored_probes_wellformed\<close>.)
\<close>

theorem boundary_delta_accumulated:
  assumes "list_all stored_probe (a @ p # bs)"
    and "a \<noteq> []"
    and "cluster_id p \<noteq> cluster_id (last a)"
    and "\<forall>q\<in>set bs. cluster_id q = cluster_id p"
  shows "count (current (cc_loop cc_init (a @ p # bs))) = 1 + int (length bs) \<and>
         send_mean_ms (current (cc_loop cc_init (a @ p # bs))) =
           float_sum 0 (deltas (send_time_ms (last a)) (map send_time_ms (p # bs))) \<and>
         recv_mean_ms (current (cc_loop cc_init (a @ p # bs))) =
           float_sum 0 (deltas (recv_time_ms (last a)) (map recv_time_ms (p # bs))) \<and>
         mean_size (current (cc_loop cc_init (a @ p # bs))) =
           sum_list (map payload_size (p # bs)) \<and>
         (small_sums 0 (deltas (send_time_ms (last a)) (map send_time_ms (p # bs))) \<longrightarrow>
            send_mean_ms (current (cc_loop cc_init (a @ p # bs))) =
              of_int (sum_list (deltas (send_time_ms (last a)) (map send_time_ms (p # bs))))) \<and>
         (small_sums 0 (deltas (recv_time_ms (last a)) (map recv_time_ms (p # bs))) \<longrightarrow>
            recv_mean_ms (current (cc_loop cc_init (a @ p # bs))) =
              of_int (sum_list (deltas (recv_time_ms (last a)) (map recv_time_ms (p # bs))))) \<and>
         (kMinClusterSize \<le> 1 + int (length bs) \<longrightarrow>
            ComputeClusters (a @ p # bs) \<noteq> [] \<and>
            count (last (ComputeClusters (a @ p # bs))) = 1 + int (length bs) \<and>
            send_mean_ms (last (ComputeClusters (a @ p # bs))) =
              to_float
                (float_sum 0 (deltas (send_time_ms (last a)) (map send_time_ms (p # bs))) /
                 to_float (of_int (1 + int (length bs)))) \<and>
            recv_mean_ms (last (ComputeClusters (a @ p # bs))) =
              to_float
                (float_sum 0 (deltas (recv_time_ms (last a)) (map recv_time_ms (p # bs))) /
                 to_float (of_int (1 + int (length bs)))) \<and>
            mean_size (last (ComputeClusters (a @ p # bs))) =
              sum_list (map payload_size (p # bs)) div (1 + length bs))"
proof -
  from assms(1) have nonneg: "\<forall>q\<in>set (a @ p # bs). 0 \<le> send_time_ms q"
    by (auto simp: list_all_iff stored_probe_def)
  from assms(1,2) have "stored_probe (last a)"
    by (simp add: list_all_iff)
  then have id: "cluster_id (last a) \<noteq> - 1"
    by (simp add: stored_probe_def kNotAProbe_def)
  note blk = boundary_block [OF assms(2) nonneg id assms(3,4)]
  have s: "small_sums 0 ds \<Longrightarrow> float_sum 0 ds = of_int (sum_list ds)" for ds
    using float_sum_small [of 0 ds] by simp
  have n: "nat (1 + int (length bs)) = 1 + length bs"
    by simp
  have fin: "kMinClusterSize \<le> 1 + int (length bs) \<Longrightarrow>
      ComputeClusters (a @ p # bs) \<noteq> [] \<and>
      last (ComputeClusters (a @ p # bs)) =
        (current (cc_loop cc_init (a @ p # bs)))
          \<lparr>send_mean_ms := to_float (send_mean_ms (current (cc_loop cc_init (a @ p # bs))) /
                              to_float (of_int (count (current (cc_loop cc_init (a @ p # bs)))))),
           recv_mean_ms := to_float (recv_mean_ms (current (cc_loop cc_init (a @ p # bs))) /
                              to_float (of_int (count (current (cc_loop cc_init (a @ p # bs)))))),
           mean_size := mean_size (current (cc_loop cc_init (a @ p # bs))) div
                          nat (count (current (cc_loop cc_init (a @ p # bs))))\<rparr>"
    by (simp only: blk(5)) (simp add: AddCluster_def)
  show ?thesis
  proof (intro conjI impI)
    assume k: "kMinClusterSize \<le> 1 + int (length bs)"
    note f = fin [OF k]
    from f show "ComputeClusters (a @ p # bs) \<noteq> []" by simp
    from f show "count (last (ComputeClusters (a @ p # bs))) = 1 + int (length bs)"
      by (simp add: blk(1))
    from f show "send_mean_ms (last (ComputeClusters (a @ p # bs))) =
        to_float (float_sum 0 (deltas (send_time_ms (last a)) (map send_time_ms (p # bs))) /
                  to_float (of_int (1 + int (length bs))))"
      by (simp only: blk(1,2)) simp
    from f show "recv_mean_ms (last (ComputeClusters (a @ p # bs))) =
        to_float (float_sum 0 (deltas (recv_time_ms (last a)) (map recv_time_ms (p # bs))) /
                  to_float (of_int (1 + int (length bs))))"
      by (simp only: blk(1,3)) simp
    from f show "mean_size (last (ComputeClusters (a @ p # bs))) =
        sum_list (map payload_size (p # bs)) div (1 + length bs)"
      by (simp only: blk(1,4) n) simp
  qed (simp_all only: blk(1,2,3,4) s)
qed

lemma boundary_quotient: "to_float (14 / 5) = 11744051 / 2 ^ 22"
  by (subst to_float_eval [of 1]) (simp_all add: round_to_even_def)

theorem boundary_delta_accumulated_witness:
  "[boundary_probe] \<noteq> [] \<and>
   list_all stored_probe ([boundary_probe] @ opening_probe # following_probes) \<and>
   cluster_id opening_probe \<noteq> cluster_id (last [boundary_probe]) \<and>
   list_all (\<lambda>q. cluster_id q = cluster_id opening_probe) following_probes \<and>
   small_sums 0 [2, 3, 3, 3, 3] \<and> small_sums 0 [3, 3, 3, 3, 3] \<and>
   kMinClusterSize \<le> 1 + int (length following_probes) \<and>
   count (current (cc_loop cc_init ([boundary_probe] @ opening_probe # following_probes))) = 5 \<and>
   send_mean_ms (current (cc_loop cc_init
     ([boundary_probe] @ opening_probe # following_probes))) = 14 \<and>
   recv_mean_ms (current (cc_loop cc_init
     ([boundary_probe] @ opening_probe # following_probes))) = 15 \<and>
   mean_size (current (cc_loop cc_init
     ([boundary_probe] @ opening_probe # following_probes))) = 6000 \<and>
   count (last (ComputeClusters ([boundary_probe] @ opening_probe # following_probes))) = 5 \<and>
   send_mean_ms (last (ComputeClusters ([boundary_probe] @ opening_probe # following_probes)))
     = 11744051 / 4194304 \<and>
   recv_mean_ms (last (ComputeClusters ([boundary_probe] @ opening_probe # following_probes)))
     = 3 \<and>
   mean_size (last (ComputeClusters ([boundary_probe] @ opening_probe # following_probes)))
     = 1200"
proof -
  let ?a = "[boundary_probe]"
  have h1: "?a \<noteq> []" by simp
  have h2: "list_all stored_probe (?a @ opening_probe # following_probes)"
    by (simp add: boundary_probe_def opening_probe_def following_probes_def stored_probe_def
        kNotAProbe_def)
  have h4: "cluster_id opening_probe \<noteq> cluster_id (last ?a)"
    by (simp add: boundary_probe_def opening_probe_def)
  have h5: "\<forall>q\<in>set following_probes. cluster_id q = cluster_id opening_probe"
    by (simp add: following_probes_def opening_probe_def)
  have d: "deltas (send_time_ms (last ?a)) (map send_time_ms (opening_probe # following_probes))
             = [2, 3, 3, 3, 3]"
    "deltas (recv_time_ms (last ?a)) (map recv_time_ms (opening_probe # following_probes))
             = [3, 3, 3, 3, 3]"
    "sum_list (map payload_size (opening_probe # following_probes)) = 6000"
    "length following_probes = 4"
    by (simp_all add: boundary_probe_def opening_probe_def following_probes_def to_int32_def)
  have f: "float_sum 0 [2, 3, 3, 3, 3] = 14" "float_sum 0 [3, 3, 3, 3, 3] = 15"
    by (simp_all add: to_float_simps)
  have sm: "small_sums 0 [2, 3, 3, 3, 3]" "small_sums 0 [3, 3, 3, 3, 3]"
    by simp_all
  note th = boundary_delta_accumulated [OF h2 h1 h4 h5, unfolded d f]
  have l: "list_all (\<lambda>q. cluster_id q = cluster_id opening_probe) following_probes"
    by (simp add: following_probes_def opening_probe_def)
  from th h2 h4 l sm d(4) show ?thesis
    by (simp add: kMinClusterSize_def to_float_simps boundary_quotient)
qed

section \<open>A probe cluster whose bitrate is zero\<close>






section \<open>A packet without the absolute send time extension\<close>

text \<open>
  C4: for every call of the single-packet ingress operation (either overload of
  IncomingPacket) whose RTP header lacks the absolute send time extension, the packet is
  dropped: the state of the estimator is unchanged, the observer is not called, and the one
  line logged at warning level is exactly the text below.
\<close>

theorem missing_abs_send_time_dropped:
  assumes "\<not> hasAbsoluteSendTime (extension header)"
  shows "IncomingPacket ops st now sz header =
           (st, None, [''RemoteBitrateEstimatorAbsSendTime: Incoming packet is missing absolute send time extension!'']) \<and>
         IncomingPacket_cluster ops st now sz header cid =
           (st, None, [''RemoteBitrateEstimatorAbsSendTime: Incoming packet is missing absolute send time extension!''])"
  using assms
  by (simp add: IncomingPacket_def IncomingPacket_cluster_def missing_abs_send_time_warning_def)


theorem missing_abs_send_time_dropped_witness:
  "\<not> hasAbsoluteSendTime (extension cleared_header) \<and>
   IncomingPacket hold_ops two_streams_state 2500 1200 cleared_header =
     (two_streams_state, None, [''RemoteBitrateEstimatorAbsSendTime: Incoming packet is missing absolute send time extension!'']) \<and>
   IncomingPacket_cluster hold_ops two_streams_state 2500 1200 cleared_header 0 =
     (two_streams_state, None, [''RemoteBitrateEstimatorAbsSendTime: Incoming packet is missing absolute send time extension!''])"
proof -
  have h: "\<not> hasAbsoluteSendTime (extension cleared_header)"
    by (simp add: cleared_header_def)
  from missing_abs_send_time_dropped [OF h, of hold_ops two_streams_state 2500 1200 0] h
  show ?thesis by simp
qed


section \<open>The time-out of silent streams\<close>

text \<open>
  C5: TimeoutStreams, which IncomingPacketInfo runs on every packet before it marks the
  packet's SSRC as seen, removes from the SSRC map every SSRC whose last-seen time is more
  than 2000 ms before the arrival time and keeps the others. If the map is then empty, the
  InterArrival and the OveruseEstimator are replaced by newly constructed ones; otherwise
  they are kept. The first packet time, the probe list, the rate counter, the rate
  controller, the detector and the time of the last update are left unchanged. The packet
  that IncomingPacketInfo is processing then goes through the InterArrival and the
  OveruseEstimator that TimeoutStreams has left, the new ones when every stream had timed
  out: the InterArrival after the packet is the result of ComputeDeltas on that one, and
  the OveruseEstimator after the packet is that one, updated when ComputeDeltas has
  completed a group; the SSRC map after the packet is the map that TimeoutStreams has
  left, with the packet's SSRC seen at the arrival time; and the first packet time after the
  packet is the one before it, unless there was none.
\<close>

theorem TimeoutStreams_effect:
  "ssrcs (TimeoutStreams ops st now) = filter (\<lambda>(k, seen). now - seen \<le> 2000) (ssrcs st) \<and>
   inter_arrival (TimeoutStreams ops st now) =
     (if ssrcs (TimeoutStreams ops st now) = []
      then InterArrival_new ops ((5 * 2 ^ 26) div 1000) (1000 / 2 ^ 26) True
      else inter_arrival st) \<and>
   estimator (TimeoutStreams ops st now) =
     (if ssrcs (TimeoutStreams ops st now) = [] then OveruseEstimator_new ops
      else estimator st) \<and>
   first_packet_time_ms (TimeoutStreams ops st now) = first_packet_time_ms st \<and>
   probes (TimeoutStreams ops st now) = probes st \<and>
   total_probes_received (TimeoutStreams ops st now) = total_probes_received st \<and>
   incoming_bitrate (TimeoutStreams ops st now) = incoming_bitrate st \<and>
   remote_rate (TimeoutStreams ops st now) = remote_rate st \<and>
   detector (TimeoutStreams ops st now) = detector st \<and>
   last_update_ms (TimeoutStreams ops st now) = last_update_ms st \<and>
   ssrcs (fst (IncomingPacketInfo ops st now s24 sz src cid)) =
     map_assign src now (ssrcs (TimeoutStreams ops st now)) \<and>
   first_packet_time_ms (fst (IncomingPacketInfo ops st now s24 sz src cid)) =
     (if first_packet_time_ms st = - 1 then now else first_packet_time_ms st) \<and>
   inter_arrival (fst (IncomingPacketInfo ops st now s24 sz src cid)) =
     fst (ComputeDeltas ops (inter_arrival (TimeoutStreams ops st now)) (upshift s24) now sz) \<and>
   estimator (fst (IncomingPacketInfo ops st now s24 sz src cid)) =
     (case snd (ComputeDeltas ops (inter_arrival (TimeoutStreams ops st now)) (upshift s24)
                  now sz) of
        None \<Rightarrow> estimator (TimeoutStreams ops st now)
      | Some (ts_delta, t_delta, size_delta) \<Rightarrow>
          estimator_Update ops (estimator (TimeoutStreams ops st now)) t_delta
            (1000 * of_int (uint ts_delta) / 2 ^ 26) size_delta (State ops (detector st)))"
proof -
  have f: "(\<lambda>(k::32 word, seen). \<not> kStreamTimeOutMs < now - seen) = (\<lambda>(k, seen). now - seen \<le> 2000)"
    by (auto simp: kStreamTimeOutMs_def)
  have s: "ssrcs (TimeoutStreams ops st now) = filter (\<lambda>(k, seen). now - seen \<le> 2000) (ssrcs st)"
    by (simp add: TimeoutStreams_def Let_def f)
  have i: "ssrcs (fst (IncomingPacketInfo ops st now s24 sz src cid)) =
     map_assign src now (ssrcs (TimeoutStreams ops st now))"
    by (simp add: IncomingPacketInfo_ssrcs s f)
  have t: "inter_arrival (TimeoutStreams ops st now) =
     (if ssrcs (TimeoutStreams ops st now) = []
      then InterArrival_new ops ((5 * 2 ^ 26) div 1000) (1000 / 2 ^ 26) True
      else inter_arrival st)"
    "estimator (TimeoutStreams ops st now) =
     (if ssrcs (TimeoutStreams ops st now) = [] then OveruseEstimator_new ops
      else estimator st)"
    by (simp_all add: TimeoutStreams_def Let_def kTimestampGroupLengthMs_def
        kInterArrivalShift_def kAbsSendTimeFraction_def kAbsSendTimeInterArrivalUpshift_def
        kTimestampToMs_def)
  from s t i show ?thesis
    by (simp only: TimeoutStreams_frame IncomingPacketInfo_filters IncomingPacketInfo_first
        simp_thms)
qed


theorem TimeoutStreams_effect_witness:
  "ssrcs (TimeoutStreams counting_ops counted_streams_state 2500) = [(2, 1500)] \<and>
   inter_arrival (TimeoutStreams counting_ops counted_streams_state 2500) = 7 \<and>
   estimator (TimeoutStreams counting_ops counted_streams_state 2500) = 3 \<and>
   ssrcs (fst (IncomingPacketInfo counting_ops counted_streams_state 2500 0 1200 3 kNotAProbe)) =
     [(2, 1500), (3, 2500)] \<and>
   inter_arrival (fst (IncomingPacketInfo counting_ops counted_streams_state 2500 0 1200 3
     kNotAProbe)) = 8 \<and>
   estimator (fst (IncomingPacketInfo counting_ops counted_streams_state 2500 0 1200 3
     kNotAProbe)) = 3 \<and>
   ssrcs (TimeoutStreams counting_ops counted_streams_state 3501) = [] \<and>
   inter_arrival (TimeoutStreams counting_ops counted_streams_state 3501) = 0 \<and>
   estimator (TimeoutStreams counting_ops counted_streams_state 3501) = 0 \<and>
   first_packet_time_ms (TimeoutStreams counting_ops counted_streams_state 3501) = 0 \<and>
   first_packet_time_ms (fst (IncomingPacketInfo counting_ops counted_streams_state 3501 0 1200 3
     kNotAProbe)) = 0 \<and>
   ssrcs (fst (IncomingPacketInfo counting_ops counted_streams_state 3501 0 1200 3 kNotAProbe)) =
     [(3, 3501)] \<and>
   inter_arrival (fst (IncomingPacketInfo counting_ops counted_streams_state 3501 0 1200 3
     kNotAProbe)) = 1 \<and>
   estimator (fst (IncomingPacketInfo counting_ops counted_streams_state 3501 0 1200 3
     kNotAProbe)) = 0"
proof -
  have c: "InterArrival_new counting_ops n x b = 0" "OveruseEstimator_new counting_ops = 0"
    "ComputeDeltas counting_ops ia ts t z = (Suc ia, None)" for n x b ia ts t z
    by (simp_all add: counting_ops_def)
  have d: "ssrcs counted_streams_state = [(1, 0), (2, 1500)]"
    "inter_arrival counted_streams_state = 7" "estimator counted_streams_state = 3"
    "first_packet_time_ms counted_streams_state = 0"
    by (simp_all add: counted_streams_state_def DelayBasedBwe_new_def)
  from TimeoutStreams_effect [of counting_ops counted_streams_state 2500 0 1200 3 kNotAProbe]
    TimeoutStreams_effect [of counting_ops counted_streams_state 3501 0 1200 3 kNotAProbe]
  show ?thesis
    by (simp add: c d)
qed


section \<open>The latest estimate\<close>

text \<open>
  C6 (as stated): when the rate controller has a valid estimate, the bitrate returned by
  the latest-estimate query is 0 if and only if the SSRC set is empty. The "only if" fails
  when the controller's own estimate is 0: the state below has one active stream and a
  valid estimate of 0, and the query returns the stream with bitrate 0.
\<close>

theorem LatestEstimate_zero_with_streams:
  "ssrcs zero_estimate_state \<noteq> [] \<and>
   ValidEstimate hold_ops (remote_rate zero_estimate_state) \<and>
   LatestEstimate hold_ops zero_estimate_state = Some ([1], 0)"
  by (simp add: LatestEstimate_def Keys_def zero_estimate_state_def DelayBasedBwe_new_def
      hold_ops_def)


text \<open>
  C6 (amended): for every state of the estimator, the latest-estimate query returns no
  result when the rate controller has no valid estimate; when it has one, it returns the
  keys of the SSRC map together with a bitrate that is 0 if the SSRC set is empty and the
  rate controller's latest estimate otherwise, so that the bitrate is 0 if and only if the
  SSRC set is empty or the controller's estimate is 0. The query is a function of the
  state: it changes nothing.
\<close>

theorem LatestEstimate_result:
  "(\<not> ValidEstimate ops (remote_rate st) \<longrightarrow> LatestEstimate ops st = None) \<and>
   (ValidEstimate ops (remote_rate st) \<longrightarrow>
      (\<exists>b. LatestEstimate ops st = Some (map fst (ssrcs st), b) \<and>
           b = (if ssrcs st = [] then 0 else rate_LatestEstimate ops (remote_rate st)) \<and>
           (b = 0 \<longleftrightarrow> ssrcs st = [] \<or> rate_LatestEstimate ops (remote_rate st) = 0)))"
  by (simp add: LatestEstimate_def Keys_def)


theorem LatestEstimate_result_witness:
  "\<not> ValidEstimate hold_ops (remote_rate two_streams_state) \<and>
   LatestEstimate hold_ops two_streams_state = None \<and>
   ValidEstimate hold_ops (remote_rate (two_streams_state\<lparr>remote_rate := Some 1600000\<rparr>)) \<and>
   LatestEstimate hold_ops (two_streams_state\<lparr>remote_rate := Some 1600000\<rparr>) =
     Some ([1, 2], 1600000)"
  using LatestEstimate_result [of hold_ops two_streams_state]
    LatestEstimate_result [of hold_ops "two_streams_state\<lparr>remote_rate := Some 1600000\<rparr>"]
  by (simp add: two_streams_state_def DelayBasedBwe_new_def hold_ops_def)

section \<open>Length mismatches in the one-byte extension parser\<close>

lemma parse_element_None_iff:
  "parse_element m header type len ptr = None \<longleftrightarrow>
     wrong_length type len \<or> type = kRtpExtensionNumberOfExtensions"
  by (cases type) (simp_all add: parse_element_def wrong_length_def kInvalidType_def Let_def)

lemma sample_elements:
  "element_id 0x11 = 1" "element_len 0x11 = 1"
  "element_id 0x32 = 3" "element_len 0x32 = 2"
  "element_id 0x50 = 5" "element_len 0x50 = 0"
  "element_id 0x52 = 5" "element_len 0x52 = 2"
  by (simp_all add: element_id_def element_len_def)

text \<open>
  C7 (as stated): a length mismatch aborts the parsing of that extension element only, and
  the parser goes on with the remaining elements. It does not: in \<open>mismatch_block\<close> a
  transmission time offset with a wrong length is followed by a well-formed absolute send
  time; the parser returns at the first element and never sets the absolute send time,
  which a parser that skipped only the mismatching element would set.
\<close>

theorem length_mismatch_stops_parsing:
  "hasAbsoluteSendTime (extension
     (ParseOneByteExtensionHeader (Some sample_map) cleared_header mismatch_block)) = False \<and>
   hasAbsoluteSendTime (extension
     (claimed_parse_loop sample_map cleared_header mismatch_block)) = True"
  by (simp add: ParseOneByteExtensionHeader_def mismatch_block_def sample_elements
      sample_map_def parse_element_def kInvalidType_def cleared_header_def Let_def)


text \<open>
  C7 (amended): for every one-byte header extension element whose length field does not
  match the length expected for its recognised type (and whose \<open>len + 1\<close> data bytes are
  in the block), the parser aborts the parsing of the whole extension block at that element:
  the result is the header as it was when the element was reached, whatever bytes follow,
  so that the remaining elements are not parsed and what an earlier element has set is
  kept.
\<close>

theorem length_mismatch_aborts_block:
  assumes "element_id b \<noteq> 0" and "element_id b \<noteq> 15"
    and "element_len b + 1 \<le> length ptr"
    and "wrong_length (GetType m (element_id b)) (element_len b)"
  shows "ParseOneByteExtensionHeader (Some m) header (b # ptr) = header \<and>
         (element_id b1 \<noteq> 0 \<and> element_id b1 \<noteq> 15 \<and> length d1 = element_len b1 + 1 \<and>
          parse_element m header0 (GetType m (element_id b1)) (element_len b1) (d1 @ b # ptr)
            = Some header \<longrightarrow>
          ParseOneByteExtensionHeader (Some m) header0 (b1 # d1 @ b # ptr) = header)"
proof -
  have n: "parse_element m h (GetType m (element_id b)) (element_len b) ptr = None" for h
    using assms(4) by (simp add: parse_element_None_iff)
  have 1: "parse_loop m h (b # ptr) = h" for h
    using assms(1-3) by (simp add: n)
  then show ?thesis
    by (auto simp: ParseOneByteExtensionHeader_def)
qed


theorem length_mismatch_aborts_block_witness:
  "element_id 0x11 \<noteq> 0 \<and> element_id 0x11 \<noteq> 15 \<and>
   element_len 0x11 + 1 \<le> length [0x00, 0x00, 0x32, 0x04, 0x05, 0x06 :: 8 word] \<and>
   wrong_length (GetType sample_map (element_id 0x11)) (element_len 0x11) \<and>
   ParseOneByteExtensionHeader (Some sample_map) cleared_header
     [0x11, 0x00, 0x00, 0x32, 0x04, 0x05, 0x06] = cleared_header \<and>
   absoluteSendTime (extension (ParseOneByteExtensionHeader (Some sample_map) cleared_header
     ([0x32, 0x01, 0x02, 0x03] @ [0x11, 0x00, 0x00, 0x32, 0x04, 0x05, 0x06]))) = 0x010203"
proof -
  let ?ptr = "[0x00, 0x00, 0x32, 0x04, 0x05, 0x06 :: 8 word]"
  let ?h = "cleared_header\<lparr>extension := (extension cleared_header)
              \<lparr>absoluteSendTime := 0x010203, hasAbsoluteSendTime := True\<rparr>\<rparr>"
  have a: "element_id 0x11 \<noteq> 0" "element_id 0x11 \<noteq> 15" "element_len 0x11 + 1 \<le> length ?ptr"
    by (simp_all add: sample_elements)
  have w: "wrong_length (GetType sample_map (element_id 0x11)) (element_len 0x11)"
    by (simp add: sample_elements sample_map_def wrong_length_def)
  have e: "element_id 0x32 \<noteq> 0 \<and> element_id 0x32 \<noteq> 15 \<and>
      length [0x01, 0x02, 0x03 :: 8 word] = element_len 0x32 + 1 \<and>
      parse_element sample_map cleared_header (GetType sample_map (element_id 0x32))
        (element_len 0x32) ([0x01, 0x02, 0x03] @ 0x11 # ?ptr) = Some ?h"
    by (simp add: sample_elements sample_map_def parse_element_def kInvalidType_def Let_def
        ReadBigEndian3_def)
  from length_mismatch_aborts_block [OF a w, of cleared_header] a w
    length_mismatch_aborts_block [OF a w, of ?h "0x32" "[0x01, 0x02, 0x03]" cleared_header] e
  show ?thesis by simp
qed


section \<open>The length of a frame marking element\<close>

text \<open>
  C8: the frame marking element is to be accepted exactly when its length field is 0
  (non-scalable form, one data byte) or 2 (scalable form, three data bytes), as the comment
  in the parser draws the two forms and as \<open>len\<close> is the number of data bytes minus one.
  The code tests \<open>len != 1 && len != 3\<close> instead: it rejects both documented forms (the
  header comes back unchanged) and accepts the length fields 1 and 3.
\<close>

theorem frame_marking_accepts_1_and_3:
  "ParseOneByteExtensionHeader (Some sample_map) cleared_header frame_marking_short
     = cleared_header \<and>
   ParseOneByteExtensionHeader (Some sample_map) cleared_header frame_marking_long
     = cleared_header \<and>
   parse_element sample_map cleared_header kRtpExtensionFrameMarking 0 [0x80] = None \<and>
   parse_element sample_map cleared_header kRtpExtensionFrameMarking 2 [0x80, 0x01, 0x02] = None \<and>
   parse_element sample_map cleared_header kRtpExtensionFrameMarking 1 [0x80, 0x00] \<noteq> None \<and>
   parse_element sample_map cleared_header kRtpExtensionFrameMarking 3 [0x80, 0x01, 0x02, 0x00]
     \<noteq> None"
  by (simp add: ParseOneByteExtensionHeader_def frame_marking_short_def frame_marking_long_def
      sample_elements sample_map_def parse_element_def kInvalidType_def Let_def)

end
